theory Spec2Isabelle
  imports Main "HOL-Library.Char_ord" "HOL-Library.List_Lexorder" "HOL-Library.Multiset"
begin

section \<open>Python strings\<close>

text \<open>
  A Python \<open>str\<close> is modelled as a \<open>string\<close> (a list of 8-bit characters), which is
  exact on ASCII text. The helpers below are the \<open>str\<close> methods and slices the two
  scrapers use.
\<close>

definition startswith :: "string \<Rightarrow> string \<Rightarrow> bool" where
  \<comment> \<open>\<open>s.startswith(p)\<close>\<close>
  "startswith s p = (take (length p) s = p)"

definition is_space :: "char \<Rightarrow> bool" where
  \<comment> \<open>\<open>c.isspace()\<close>, which is also the class \<open>\s\<close> of \<open>re\<close>, on ASCII\<close>
  "is_space c = ((of_char c :: nat) \<in> {9, 10, 11, 12, 13, 28, 29, 30, 31, 32})"

definition lstrip_by :: "(char \<Rightarrow> bool) \<Rightarrow> string \<Rightarrow> string" where
  "lstrip_by p s = dropWhile p s"

definition strip_by :: "(char \<Rightarrow> bool) \<Rightarrow> string \<Rightarrow> string" where
  "strip_by p s = rev (dropWhile p (rev (dropWhile p s)))"

definition strip :: "string \<Rightarrow> string" where
  \<comment> \<open>\<open>s.strip()\<close>\<close>
  "strip s = strip_by is_space s"

definition strip_quotes :: "string \<Rightarrow> string" where
  \<comment> \<open>\<open>s.strip('\'"')\<close>\<close>
  "strip_quotes s = strip_by (\<lambda>c. c = CHR 0x27 \<or> c = CHR 0x22) s"

definition lower_char :: "char \<Rightarrow> char" where
  "lower_char c =
     (if (65::nat) \<le> of_char c \<and> (of_char c :: nat) \<le> 90
      then char_of ((of_char c :: nat) + 32) else c)"

definition lower :: "string \<Rightarrow> string" where
  \<comment> \<open>\<open>s.lower()\<close>, on ASCII\<close>
  "lower s = map lower_char s"

definition split_at :: "char \<Rightarrow> string \<Rightarrow> string \<times> string" where
  \<comment> \<open>\<open>s.split(c, 1)\<close> when \<open>c in s\<close>; \<open>(s, '')\<close> otherwise\<close>
  "split_at c s = (takeWhile (\<lambda>x. x \<noteq> c) s, drop 1 (dropWhile (\<lambda>x. x \<noteq> c) s))"

fun split_all :: "char \<Rightarrow> string \<Rightarrow> string list" where
  \<comment> \<open>\<open>s.split(c)\<close>: always at least one piece\<close>
  "split_all c [] = [[]]"
| "split_all c (x # xs) =
     (if x = c then [] # split_all c xs
      else (case split_all c xs of
              p # ps \<Rightarrow> (x # p) # ps
            | [] \<Rightarrow> [[x]]))"

fun join :: "string \<Rightarrow> string list \<Rightarrow> string" where
  \<comment> \<open>\<open>sep.join(parts)\<close>\<close>
  "join sep [] = []"
| "join sep [p] = p"
| "join sep (p # q # ps) = p @ sep @ join sep (q # ps)"

section \<open>The standard library the scrapers call\<close>

text \<open>
  The scrapers are built on \<open>urllib.parse\<close>, \<open>html\<close>, \<open>bs4\<close> and \<open>requests\<close>. None of
  them is part of the repository, so each library function is a field of a record that
  the program takes as a parameter: a theorem that quantifies over the record holds
  whatever these functions compute. The functions of the record are total. The calls
  that fail in practice, reading a file and the two requests, belong to the second
  parameter (the world, below) and have their failure as a value; the \<open>ValueError\<close> that
  \<open>urlparse\<close> and \<open>urljoin\<close> raise for a host with unbalanced brackets is outside
  the model.
\<close>

record ParseResult =
  scheme :: string
  netloc :: string
  path :: string
  params :: string
  query :: string
  fragment :: string

text \<open>
  An element of the parsed document, as \<open>bs4\<close> shows it: its name and its attributes.
  \<open>tag_attrs\<close> is the attribute dictionary (\<open>tag.has_attr(a)\<close> is \<open>a\<close> being a key,
  \<open>tag.get(a)\<close> the value). \<open>bs4\<close> has already decoded the character references of
  attribute values.
\<close>

record tag =
  tag_name :: string
  tag_attrs :: "(string \<times> string) list"

text \<open>
  What the scrapers read from a \<open>BeautifulSoup\<close> object: \<open>find_all(True)\<close> (every
  element, in document order), \<open>soup.title.string\<close> (\<open>None\<close> when there is no title element
  or it has no single string) and \<open>get_text(separator=" ", strip=True)\<close>.
\<close>

record soup =
  find_all :: "tag list"
  title_string :: "string option"
  get_text :: string

record library =
  urlparse :: "string \<Rightarrow> ParseResult"
  urljoin :: "string \<Rightarrow> string \<Rightarrow> string"
  unescape :: "string \<Rightarrow> string"
  url2pathname :: "string \<Rightarrow> string"
  BeautifulSoup :: "string \<Rightarrow> soup"
  set_slot :: "string set \<Rightarrow> string \<Rightarrow> nat"
  int_of_str :: "string \<Rightarrow> int option"

section \<open>A model of CPython's library functions, for the examples\<close>

text \<open>
  The closed examples of this theory need the library at concrete strings. The
  definitions of this section follow CPython 3.11's \<open>urllib.parse\<close> (\<open>urlsplit\<close>,
  \<open>urlparse\<close>, \<open>urlunparse\<close>, \<open>urljoin\<close>) on inputs for which it raises no
  \<open>ValueError\<close> (that is, without unbalanced brackets in the host). No theorem that
  quantifies over the library depends on them.
\<close>

definition uses_relative :: "string list" where
  "uses_relative = ['''', ''ftp'', ''http'', ''gopher'', ''nntp'', ''imap'',
     ''wais'', ''file'', ''https'', ''shttp'', ''mms'',
     ''prospero'', ''rtsp'', ''rtsps'', ''rtspu'', ''sftp'',
     ''svn'', ''svn+ssh'', ''ws'', ''wss'']"

definition uses_netloc :: "string list" where
  "uses_netloc = ['''', ''ftp'', ''http'', ''gopher'', ''nntp'', ''telnet'',
     ''imap'', ''wais'', ''file'', ''mms'', ''https'', ''shttp'',
     ''snews'', ''prospero'', ''rtsp'', ''rtsps'', ''rtspu'', ''rsync'',
     ''svn'', ''svn+ssh'', ''sftp'', ''nfs'', ''git'', ''git+ssh'',
     ''ws'', ''wss'']"

definition uses_params :: "string list" where
  "uses_params = ['''', ''ftp'', ''hdl'', ''prospero'', ''http'', ''imap'',
     ''https'', ''shttp'', ''rtsp'', ''rtsps'', ''rtspu'', ''sip'',
     ''sips'', ''mms'', ''sftp'', ''tel'']"

definition is_alpha :: "char \<Rightarrow> bool" where
  "is_alpha c = (((65::nat) \<le> of_char c \<and> (of_char c :: nat) \<le> 90)
               \<or> ((97::nat) \<le> of_char c \<and> (of_char c :: nat) \<le> 122))"

definition is_digit :: "char \<Rightarrow> bool" where
  "is_digit c = ((48::nat) \<le> of_char c \<and> (of_char c :: nat) \<le> 57)"

definition is_scheme_char :: "char \<Rightarrow> bool" where
  "is_scheme_char c = (is_alpha c \<or> is_digit c \<or> c \<in> set ''+-.'')"

definition is_c0_or_space :: "char \<Rightarrow> bool" where
  "is_c0_or_space c = ((of_char c :: nat) \<le> 32)"

definition is_unsafe_byte :: "char \<Rightarrow> bool" where
  \<comment> \<open>tab, carriage return, line feed\<close>
  "is_unsafe_byte c = ((of_char c :: nat) \<in> {9, 13, 10})"

definition py_urlsplit :: "string \<Rightarrow> string \<Rightarrow> ParseResult" where
  \<comment> \<open>\<open>urlsplit(url, scheme)\<close>; \<open>params\<close> is filled by \<open>py_urlparse_with\<close>\<close>
  "py_urlsplit url0 scheme0 =
     (let url1 = filter (\<lambda>c. \<not> is_unsafe_byte c) (lstrip_by is_c0_or_space url0);
          scheme1 = filter (\<lambda>c. \<not> is_unsafe_byte c) (strip_by is_c0_or_space scheme0);
          pre = takeWhile (\<lambda>c. c \<noteq> CHR '':'') url1;
          has_scheme = (CHR '':'' \<in> set url1 \<and> pre \<noteq> [] \<and> is_alpha (hd url1)
                          \<and> list_all is_scheme_char pre);
          scheme2 = (if has_scheme then lower pre else scheme1);
          url2 = (if has_scheme then drop (length pre + 1) url1 else url1);
          is_delim = (\<lambda>c. c = CHR ''/'' \<or> c = CHR ''?'' \<or> c = CHR ''#'');
          has_netloc = (take 2 url2 = ''//'');
          netloc3 = (if has_netloc then takeWhile (\<lambda>c. \<not> is_delim c) (drop 2 url2) else []);
          url3 = (if has_netloc then dropWhile (\<lambda>c. \<not> is_delim c) (drop 2 url2) else url2);
          url4 = fst (split_at CHR ''#'' url3);
          fragment4 = snd (split_at CHR ''#'' url3);
          url5 = fst (split_at CHR ''?'' url4);
          query5 = snd (split_at CHR ''?'' url4)
      in \<lparr>scheme = scheme2, netloc = netloc3, path = url5, params = [],
          query = query5, fragment = fragment4\<rparr>)"

definition splitparams :: "string \<Rightarrow> string \<times> string" where
  \<comment> \<open>\<open>_splitparams(url)\<close>: the parameters of the last path segment\<close>
  "splitparams url =
     (let after = rev (takeWhile (\<lambda>c. c \<noteq> CHR ''/'') (rev url));
          before = take (length url - length after) url
      in if CHR '';'' \<in> set after
         then (before @ takeWhile (\<lambda>c. c \<noteq> CHR '';'') after,
               drop 1 (dropWhile (\<lambda>c. c \<noteq> CHR '';'') after))
         else (url, []))"

definition py_urlparse_with :: "string \<Rightarrow> string \<Rightarrow> ParseResult" where
  \<comment> \<open>\<open>urlparse(url, scheme)\<close>\<close>
  "py_urlparse_with url scheme0 =
     (let r = py_urlsplit url scheme0
      in if scheme r \<in> set uses_params \<and> CHR '';'' \<in> set (path r)
         then r\<lparr>path := fst (splitparams (path r)), params := snd (splitparams (path r))\<rparr>
         else r)"

definition py_urlparse :: "string \<Rightarrow> ParseResult" where
  \<comment> \<open>\<open>urlparse(url)\<close>\<close>
  "py_urlparse url = py_urlparse_with url []"

definition py_urlunparse :: "ParseResult \<Rightarrow> string" where
  \<comment> \<open>\<open>urlunparse(components)\<close>, with \<open>urlunsplit\<close> inlined\<close>
  "py_urlunparse r =
     (let url1 = (if params r \<noteq> [] then path r @ '';'' @ params r else path r);
          url2 = (if netloc r \<noteq> [] \<or> (scheme r \<noteq> [] \<and> scheme r \<in> set uses_netloc)
                     \<or> take 2 url1 = ''//''
                  then ''//'' @ netloc r
                         @ (if url1 \<noteq> [] \<and> take 1 url1 \<noteq> ''/'' then ''/'' @ url1 else url1)
                  else url1);
          url3 = (if scheme r \<noteq> [] then scheme r @ '':'' @ url2 else url2);
          url4 = (if query r \<noteq> [] then url3 @ ''?'' @ query r else url3)
      in if fragment r \<noteq> [] then url4 @ ''#'' @ fragment r else url4)"

definition resolve_segments :: "string list \<Rightarrow> string list" where
  \<comment> \<open>the loop of \<open>urljoin\<close> that removes \<open>.\<close> and \<open>..\<close> segments\<close>
  "resolve_segments segments =
     fold (\<lambda>seg resolved_path.
             if seg = ''..'' then butlast resolved_path
             else if seg = ''.'' then resolved_path
             else resolved_path @ [seg])
          segments []"

definition join_segments :: "string \<Rightarrow> string \<Rightarrow> string list" where
  \<comment> \<open>the segments \<open>urljoin\<close> resolves, from the base path and the relative path\<close>
  "join_segments bpath rpath =
     (let base_parts0 = split_all CHR ''/'' bpath;
          base_parts = (if last base_parts0 \<noteq> [] then butlast base_parts0 else base_parts0)
      in if take 1 rpath = ''/'' then split_all CHR ''/'' rpath
         else (case base_parts @ split_all CHR ''/'' rpath of
                 x # y # rest \<Rightarrow>
                   x # filter (\<lambda>s. s \<noteq> []) (butlast (y # rest)) @ [last (y # rest)]
               | segments \<Rightarrow> segments))"

definition py_urljoin :: "string \<Rightarrow> string \<Rightarrow> string" where
  \<comment> \<open>\<open>urljoin(base, url)\<close>\<close>
  "py_urljoin base url =
     (if base = [] then url
      else if url = [] then base
      else
        let b = py_urlparse_with base [];
            u = py_urlparse_with url (scheme b);
            netloc1 = (if scheme u \<in> set uses_netloc then netloc b else netloc u);
            segments = join_segments (path b) (path u);
            resolved0 = resolve_segments segments;
            resolved_path = (if last segments = ''.'' \<or> last segments = ''..''
                             then resolved0 @ [[]] else resolved0);
            joined = join ''/'' resolved_path
        in if scheme u \<noteq> scheme b \<or> scheme u \<notin> set uses_relative then url
           else if scheme u \<in> set uses_netloc \<and> netloc u \<noteq> [] then py_urlunparse u
           else if path u = [] \<and> params u = []
           then py_urlunparse
                  (u\<lparr>netloc := netloc1, path := path b, params := params b,
                     query := (if query u = [] then query b else query u)\<rparr>)
           else py_urlunparse
                  (u\<lparr>netloc := netloc1,
                     path := (if joined = [] then ''/'' else joined)\<rparr>))"

section \<open>URL classifier\<close>

text \<open>
  \<^verbatim>\<open>
  def is_valid(url):
      parsed = urlparse(url)
      return bool(parsed.scheme) and bool(parsed.netloc)
  \<close>
  The function is the same in both scrapers.
\<close>

definition is_valid :: "library \<Rightarrow> string \<Rightarrow> bool" where
  "is_valid L url =
     (let parsed = urlparse L url
      in scheme parsed \<noteq> [] \<and> netloc parsed \<noteq> [])"

section \<open>The regular expressions of the link extractor\<close>

text \<open>
  The three patterns are simple enough to be written as functions on strings.
  \<open>re.findall\<close> scans left to right and resumes after each match; \<open>re.search\<close>
  returns the leftmost match.
\<close>

fun search_url_param :: "string \<Rightarrow> string option" where
  \<comment> \<open>group 1 of \<open>re.search(r'url=([\S]+)', content, re.IGNORECASE)\<close>\<close>
  "search_url_param [] = None"
| "search_url_param (c # cs) =
     (if lower (take 4 (c # cs)) = ''url=''
         \<and> takeWhile (\<lambda>x. \<not> is_space x) (drop 3 cs) \<noteq> []
      then Some (takeWhile (\<lambda>x. \<not> is_space x) (drop 3 cs))
      else search_url_param cs)"

function findall_css_url :: "string \<Rightarrow> string list" where
  \<comment> \<open>\<open>re.findall(r'url\(([^)]+)\)', html_content)\<close>\<close>
  "findall_css_url [] = []"
| "findall_css_url (c # cs) =
     (if take 4 (c # cs) = ''url(''
         \<and> takeWhile (\<lambda>x. x \<noteq> CHR 0x29) (drop 3 cs) \<noteq> []
         \<and> take 1 (dropWhile (\<lambda>x. x \<noteq> CHR 0x29) (drop 3 cs)) = [CHR 0x29]
      then takeWhile (\<lambda>x. x \<noteq> CHR 0x29) (drop 3 cs)
             # findall_css_url (drop 1 (dropWhile (\<lambda>x. x \<noteq> CHR 0x29) (drop 3 cs)))
      else findall_css_url cs)"
  by pat_completeness auto
termination
proof (relation "measure length")
  fix c :: char and cs :: string
  have "length (dropWhile (\<lambda>x. x \<noteq> CHR 0x29) (drop 3 cs)) \<le> length (drop 3 cs)"
    by (rule length_dropWhile_le)
  then show "(drop 1 (dropWhile (\<lambda>x. x \<noteq> CHR 0x29) (drop 3 cs)), c # cs) \<in> measure length"
    by simp
qed simp_all

declare search_url_param.simps [simp del] and findall_css_url.simps [simp del]

definition is_url_char :: "char \<Rightarrow> bool" where
  \<comment> \<open>the class \<open>[^\s"\'<>]\<close>\<close>
  "is_url_char c =
     (\<not> is_space c \<and> c \<noteq> CHR 0x22 \<and> c \<noteq> CHR 0x27 \<and> c \<noteq> CHR ''<'' \<and> c \<noteq> CHR ''>'')"

definition http_prefix :: "string \<Rightarrow> nat" where
  \<comment> \<open>the length of the match of \<open>https?://\<close> at the start of the string, 0 when none\<close>
  "http_prefix s =
     (if take 8 s = ''https://'' then 8 else if take 7 s = ''http://'' then 7 else 0)"

function findall_http :: "string \<Rightarrow> string list" where
  \<comment> \<open>\<open>re.findall(r'https?://[^\s"\'<>]+', html_content)\<close>\<close>
  "findall_http [] = []"
| "findall_http (c # cs) =
     (if 0 < http_prefix (c # cs)
         \<and> takeWhile is_url_char (drop (http_prefix (c # cs) - 1) cs) \<noteq> []
      then (take (http_prefix (c # cs)) (c # cs)
              @ takeWhile is_url_char (drop (http_prefix (c # cs) - 1) cs))
             # findall_http (dropWhile is_url_char (drop (http_prefix (c # cs) - 1) cs))
      else findall_http cs)"
  by pat_completeness auto
termination
proof (relation "measure length")
  fix c :: char and cs :: string
  have "length (dropWhile is_url_char (drop (http_prefix (c # cs) - 1) cs))
          \<le> length (drop (http_prefix (c # cs) - 1) cs)"
    by (rule length_dropWhile_le)
  then show "(dropWhile is_url_char (drop (http_prefix (c # cs) - 1) cs), c # cs) \<in> measure length"
    by simp
qed simp_all

declare findall_http.simps [simp del]

section \<open>Link extractor\<close>

subsection \<open>The crawler's variant (WBSLSCv4)\<close>

definition url_attrs_WBSLSC :: "string list" where
  "url_attrs_WBSLSC =
     [''href'', ''src'', ''action'', ''data-href'', ''data-src'', ''data-url'',
      ''data-link'', ''oneclick'']"

text \<open>
  Each of the four loops of \<open>get_all_links\<close> ends with the same four lines:
  \<^verbatim>\<open>
  if full_url.startswith("file://"):
      links.add(full_url)
  elif is_valid(full_url) and urlparse(full_url).netloc == urlparse(base_url).netloc:
      links.add(full_url)
  \<close>
\<close>

definition add_link_WBSLSC :: "library \<Rightarrow> string \<Rightarrow> string \<Rightarrow> string set \<Rightarrow> string set" where
  "add_link_WBSLSC L base_url full_url links =
     (if startswith full_url ''file://'' then insert full_url links
      else if is_valid L full_url
              \<and> netloc (urlparse L full_url) = netloc (urlparse L base_url)
      then insert full_url links
      else links)"

definition meta_refresh_tags :: "soup \<Rightarrow> tag list" where
  \<comment> \<open>\<open>soup.find_all("meta", attrs={"http-equiv": lambda x: x and x.lower() == "refresh"})\<close>\<close>
  "meta_refresh_tags sp =
     filter (\<lambda>t. tag_name t = ''meta''
                \<and> (case map_of (tag_attrs t) ''http-equiv'' of
                      None \<Rightarrow> False
                    | Some x \<Rightarrow> x \<noteq> [] \<and> lower x = ''refresh''))
            (find_all sp)"

definition get_all_links_WBSLSC :: "library \<Rightarrow> string \<Rightarrow> string \<Rightarrow> string set" where
  "get_all_links_WBSLSC L html_content base_url =
     (let sp = BeautifulSoup L html_content;
          links1 =
            fold (\<lambda>t links.
                    fold (\<lambda>attr links.
                            case map_of (tag_attrs t) attr of
                              None \<Rightarrow> links
                            | Some url_candidate \<Rightarrow>
                                if url_candidate \<noteq> []
                                then add_link_WBSLSC L base_url
                                       (urljoin L base_url url_candidate) links
                                else links)
                         url_attrs_WBSLSC links)
                 (find_all sp) {};
          links2 =
            fold (\<lambda>meta links.
                    case search_url_param
                           (case map_of (tag_attrs meta) ''content'' of
                              None \<Rightarrow> [] | Some content \<Rightarrow> content) of
                      None \<Rightarrow> links
                    | Some group1 \<Rightarrow>
                        add_link_WBSLSC L base_url
                          (urljoin L base_url (strip_quotes (strip group1))) links)
                 (meta_refresh_tags sp) links1;
          links3 =
            fold (\<lambda>css_url links.
                    add_link_WBSLSC L base_url
                      (urljoin L base_url (strip_quotes (strip css_url))) links)
                 (findall_css_url html_content) links2;
          links4 =
            fold (\<lambda>match links.
                    add_link_WBSLSC L base_url (urljoin L base_url match) links)
                 (findall_http html_content) links3
      in links4)"

subsection \<open>The broken-link scanner's variant (brokenScraperV2.96.5)\<close>

definition url_attrs_brokenScraper :: "string list" where
  "url_attrs_brokenScraper = [''href'', ''src'', ''action'', ''data-href'', ''data-src'']"

definition get_all_links_brokenScraper :: "library \<Rightarrow> string \<Rightarrow> string \<Rightarrow> string set" where
  "get_all_links_brokenScraper L html_content base_url =
     (let sp = BeautifulSoup L html_content;
          links1 =
            fold (\<lambda>t links.
                    fold (\<lambda>attr links.
                            case map_of (tag_attrs t) attr of
                              None \<Rightarrow> links
                            | Some url_candidate \<Rightarrow>
                                if url_candidate \<noteq> []
                                then (let full_url =
                                            urljoin L base_url (unescape L url_candidate)
                                      in if startswith full_url ''file://'' \<or> is_valid L full_url
                                         then insert full_url links else links)
                                else links)
                         url_attrs_brokenScraper links)
                 (find_all sp) {};
          links2 =
            fold (\<lambda>match links.
                    let full_url = urljoin L base_url (unescape L match)
                    in if is_valid L full_url then insert full_url links else links)
                 (findall_http html_content) links1
      in links2)"

subsection \<open>The four strategies, as the specification words them\<close>

text \<open>
  Each strategy yields the raw candidates it finds; a candidate is then resolved
  against the base URL and kept when the variant's acceptance policy holds.
\<close>

definition attribute_scan :: "string list \<Rightarrow> soup \<Rightarrow> string list" where
  \<comment> \<open>strategy 1: every non-empty value of a listed attribute, on every element\<close>
  "attribute_scan attrs sp =
     concat (map (\<lambda>t. concat (map (\<lambda>attr. case map_of (tag_attrs t) attr of
                                              None \<Rightarrow> []
                                            | Some v \<Rightarrow> if v \<noteq> [] then [v] else [])
                                   attrs))
                 (find_all sp))"

definition meta_refresh_scan :: "soup \<Rightarrow> string list" where
  \<comment> \<open>strategy 2: the \<open>url=\<close> parameter of a meta refresh, without surrounding quotes\<close>
  "meta_refresh_scan sp =
     concat (map (\<lambda>meta. case search_url_param
                                (case map_of (tag_attrs meta) ''content'' of
                                   None \<Rightarrow> [] | Some content \<Rightarrow> content) of
                            None \<Rightarrow> []
                          | Some group1 \<Rightarrow> [strip_quotes (strip group1)])
                 (meta_refresh_tags sp))"

definition inline_css_scan :: "string \<Rightarrow> string list" where
  \<comment> \<open>strategy 3: the \<open>url(...)\<close> occurrences of the raw text\<close>
  "inline_css_scan html_content = map (\<lambda>css_url. strip_quotes (strip css_url))
                                      (findall_css_url html_content)"

definition raw_text_scan :: "string \<Rightarrow> string list" where
  \<comment> \<open>strategy 4: the \<open>http(s)://\<close> substrings of the raw text\<close>
  "raw_text_scan html_content = findall_http html_content"

definition in_scope_WBSLSC :: "library \<Rightarrow> string \<Rightarrow> string \<Rightarrow> bool" where
  \<comment> \<open>the crawler accepts local-file URLs and URLs of the base's host\<close>
  "in_scope_WBSLSC L base_url full_url =
     (startswith full_url ''file://''
      \<or> (is_valid L full_url \<and> netloc (urlparse L full_url) = netloc (urlparse L base_url)))"

definition resolved :: "library \<Rightarrow> string \<Rightarrow> (string \<Rightarrow> bool) \<Rightarrow> string list \<Rightarrow> string set" where
  \<comment> \<open>the accepted absolute URLs of a list of candidates\<close>
  "resolved L base_url accept candidates =
     {full_url \<in> urljoin L base_url ` set candidates. accept full_url}"

section \<open>Page fetcher\<close>

text \<open>
  The file system and the network are a second parameter: whether a path exists, what
  reading it returns, and what \<open>requests.get\<close> and \<open>requests.head\<close> answer for a URL.
  A call that raises is the value \<open>Raised msg\<close>, with \<open>msg\<close> the text \<open>str(e)\<close> of the
  exception. \<open>finished_at\<close> is the moment the check of a link completes, which orders
  the results of the thread pool.
\<close>

datatype 'a outcome = Returned 'a | Raised string

record world =
  path_exists :: "string \<Rightarrow> bool"
  read_file :: "string \<Rightarrow> string outcome"
  requests_get :: "string \<Rightarrow> (int \<times> string) outcome"
  requests_head :: "string \<Rightarrow> int outcome"
  finished_at :: "string \<Rightarrow> nat"

record page_data =
  pd_url :: string
  pd_title :: string
  pd_text :: string
  pd_images :: "(string \<times> string) list"
  pd_links :: "string set"

definition page_title :: "soup \<Rightarrow> string" where
  \<comment> \<open>\<open>soup.title.string.strip() if soup.title and soup.title.string else ""\<close>\<close>
  "page_title sp =
     (case title_string sp of
        None \<Rightarrow> []
      | Some s \<Rightarrow> if s \<noteq> [] then strip s else [])"

definition page_images :: "library \<Rightarrow> string \<Rightarrow> soup \<Rightarrow> (string \<times> string) list" where
  \<comment> \<open>the loop over \<open>soup.find_all("img", src=True)\<close>\<close>
  "page_images L url sp =
     concat (map (\<lambda>img.
                    if tag_name img = ''img''
                    then (case map_of (tag_attrs img) ''src'' of
                            None \<Rightarrow> []
                          | Some src \<Rightarrow>
                              [(urljoin L url src,
                                strip (case map_of (tag_attrs img) ''alt'' of
                                         None \<Rightarrow> [] | Some alt \<Rightarrow> alt))])
                    else [])
                 (find_all sp))"

text \<open>
  \<open>scrape_page\<close> runs in a \<open>try\<close> block whose handler prints the exception and returns
  \<open>None\<close>; the early returns for a missing file and for a status other than 200 are
  the other two ways to \<open>None\<close>.
\<close>

definition scrape_page_WBSLSC :: "library \<Rightarrow> world \<Rightarrow> string \<Rightarrow> page_data option" where
  "scrape_page_WBSLSC L W url =
     (let page = (\<lambda>content.
            let sp = BeautifulSoup L content
            in Some \<lparr>pd_url = url, pd_title = page_title sp, pd_text = get_text sp,
                     pd_images = page_images L url sp,
                     pd_links = get_all_links_WBSLSC L content url\<rparr>)
      in if startswith url ''file://''
         then (let p = url2pathname L (path (urlparse L url))
               in if \<not> path_exists W p then None
                  else (case read_file W p of
                          Raised e \<Rightarrow> None
                        | Returned content \<Rightarrow> page content))
         else (case requests_get W url of
                 Raised e \<Rightarrow> None
               | Returned response \<Rightarrow>
                   if fst response \<noteq> 200 then None else page (snd response)))"

definition scrape_page_brokenScraper :: "library \<Rightarrow> world \<Rightarrow> string \<Rightarrow> page_data option" where
  "scrape_page_brokenScraper L W url =
     (let page = (\<lambda>content.
            let sp = BeautifulSoup L content
            in Some \<lparr>pd_url = url, pd_title = page_title sp, pd_text = get_text sp,
                     pd_images = page_images L url sp,
                     pd_links = get_all_links_brokenScraper L content url\<rparr>)
      in if startswith url ''file://''
         then (let p = url2pathname L (path (urlparse L url))
               in if \<not> path_exists W p then None
                  else (case read_file W p of
                          Raised e \<Rightarrow> None
                        | Returned content \<Rightarrow> page content))
         else (case requests_get W url of
                 Raised e \<Rightarrow> None
               | Returned response \<Rightarrow>
                   if fst response \<noteq> 200 then None else page (snd response)))"

section \<open>Tree builder\<close>

text \<open>
  \<open>visited\<close> is the set the recursive calls share and mutate; the model passes it in and
  returns it. \<open>scraped\<close> is the log of the lines \<open>Scraping: <url>\<close> that \<open>build_tree\<close>
  prints, one before each call of \<open>scrape_page\<close>: the fetches of the traversal, in order.
\<close>

record crawl_state =
  visited :: "string set"
  scraped :: "string list"

datatype node =
  Node (node_url: string) (node_title: string) (node_links: "string list")
       (node_children: "node list")

text \<open>
  A Python \<open>set\<close> is iterated in an order the program does not control. The order is the
  order of the slots the library assigns (\<open>set_slot\<close>, which may depend on the whole
  set); every order of the elements arises from some assignment.
\<close>

definition set_iter :: "library \<Rightarrow> string set \<Rightarrow> string list" where
  "set_iter L S = sort_key (set_slot L S) (sorted_list_of_set S)"

text \<open>
  The test that guards the recursive call:
  \<^verbatim>\<open>
  if url.startswith("file://"):
      if link.startswith("file://"): ...
  else:
      if urlparse(link).netloc == base_domain: ...
  \<close>
\<close>

definition follows :: "library \<Rightarrow> string \<Rightarrow> string \<Rightarrow> string \<Rightarrow> bool" where
  "follows L url base_domain link =
     (if startswith url ''file://'' then startswith link ''file://''
      else netloc (urlparse L link) = base_domain)"

function build_tree ::
  "library \<Rightarrow> world \<Rightarrow> string \<Rightarrow> string \<Rightarrow> int \<Rightarrow> crawl_state \<Rightarrow> node option \<times> crawl_state"
where
  "build_tree L W url base_domain max_depth s =
     (if url \<in> visited s then (None, s)
      else
        (case scrape_page_WBSLSC L W url of
           None \<Rightarrow> (None, s\<lparr>visited := insert url (visited s), scraped := scraped s @ [url]\<rparr>)
         | Some page_data \<Rightarrow>
             if max_depth > 0
             then
               (case fold (\<lambda>link acc.
                             if follows L url base_domain link
                             then (case build_tree L W link base_domain (max_depth - 1) (snd acc) of
                                     (None, s') \<Rightarrow> (fst acc, s')
                                   | (Some child, s') \<Rightarrow> (fst acc @ [child], s'))
                             else acc)
                          (set_iter L (pd_links page_data))
                          ([], s\<lparr>visited := insert url (visited s),
                                 scraped := scraped s @ [url]\<rparr>) of
                  (children, s') \<Rightarrow>
                    (Some (Node (pd_url page_data) (pd_title page_data)
                             (sorted_list_of_set (pd_links page_data)) children), s'))
             else (Some (Node (pd_url page_data) (pd_title page_data)
                           (sorted_list_of_set (pd_links page_data)) []),
                   s\<lparr>visited := insert url (visited s), scraped := scraped s @ [url]\<rparr>)))"
  by pat_completeness auto
termination
  by (relation "measure (\<lambda>(L, W, url, base_domain, max_depth, s). nat max_depth)") auto

declare build_tree.simps [simp del]

text \<open>
  The driver reads the seed URL and the depth, with their defaults, and starts the
  traversal with an empty visited set.
  \<^verbatim>\<open>
  try:
      max_depth = int(max_depth_input) if max_depth_input else 1
  except ValueError:
      max_depth = 1
  \<close>
\<close>

definition read_max_depth :: "library \<Rightarrow> string \<Rightarrow> int" where
  "read_max_depth L max_depth_input =
     (if max_depth_input \<noteq> []
      then (case int_of_str L max_depth_input of Some n \<Rightarrow> n | None \<Rightarrow> 1)
      else 1)"

definition main_WBSLSC :: "library \<Rightarrow> world \<Rightarrow> string \<Rightarrow> string \<Rightarrow> node option \<times> crawl_state" where
  "main_WBSLSC L W line1 line2 =
     (let website_url = (if strip line1 \<noteq> [] then strip line1 else ''https://hamzak.cloud'');
          max_depth = read_max_depth L (strip line2);
          parsed_base = urlparse L website_url;
          base_domain = (if scheme parsed_base = ''file'' then website_url
                         else netloc parsed_base)
      in build_tree L W website_url base_domain max_depth \<lparr>visited = {}, scraped = []\<rparr>)"

fun nodes :: "node \<Rightarrow> node list" where
  \<comment> \<open>every node of a tree, the root first\<close>
  "nodes (Node u t ls cs) = Node u t ls cs # concat (map nodes cs)"

section \<open>Link checker and link-health scanner\<close>

definition ERROR_CODES :: "int set" where
  "ERROR_CODES = {404}"

fun str_nat :: "nat \<Rightarrow> string" where
  "str_nat n = (if n < 10 then [char_of (48 + n)]
                else str_nat (n div 10) @ [char_of (48 + n mod 10)])"

declare str_nat.simps [simp del]

definition str_int :: "int \<Rightarrow> string" where
  \<comment> \<open>\<open>str(n)\<close>, as the f-string formats the status code\<close>
  "str_int i = (if i < 0 then ''-'' @ str_nat (nat (- i)) else str_nat (nat i))"

text \<open>
  The set of error codes is the module constant \<open>ERROR_CODES\<close>, which the source invites
  to extend; the functions take it as the parameter \<open>error_codes\<close>.
\<close>

definition check_link :: "int set \<Rightarrow> world \<Rightarrow> string \<Rightarrow> int option \<times> string" where
  "check_link error_codes W url =
     (case requests_head W url of
        Raised e \<Rightarrow> (None, e)
      | Returned status_code \<Rightarrow>
          if status_code \<in> error_codes
          then (Some status_code, ''Status '' @ str_int status_code)
          else (Some status_code, []))"

record BrokenLinkRecord =
  parent_url :: string
  broken_link :: string
  status :: int
  error :: string

text \<open>
  \<open>process_input_url\<close> returns the records; the model returns with them the URLs given
  to \<open>check_link\<close>, in the order of the calls (the page, then the links as submitted to
  the pool). \<open>as_completed\<close> yields the checks in the order they finish. \<open>check_link\<close>
  catches every exception, so the handler around \<open>future.result()\<close> is never entered.
\<close>

definition as_completed :: "world \<Rightarrow> string list \<Rightarrow> string list" where
  "as_completed W links = sort_key (finished_at W) links"

definition process_input_url ::
  "int set \<Rightarrow> library \<Rightarrow> world \<Rightarrow> string \<Rightarrow> BrokenLinkRecord list \<times> string list" where
  "process_input_url error_codes L W url =
     (case scrape_page_brokenScraper L W url of
        None \<Rightarrow> ([], [])
      | Some page_data \<Rightarrow>
          let records0 =
                (case check_link error_codes W url of
                   (None, err) \<Rightarrow> []
                 | (Some st, err) \<Rightarrow>
                     if st \<in> error_codes
                     then [\<lparr>parent_url = url, broken_link = url, status = st,
                            error = (if err \<noteq> [] then err else ''Broken main page'')\<rparr>]
                     else []);
              links = set_iter L (pd_links page_data);
              records1 =
                fold (\<lambda>link records.
                        case check_link error_codes W link of
                          (None, err) \<Rightarrow> records
                        | (Some st, err) \<Rightarrow>
                            if st \<in> error_codes
                            then records @ [\<lparr>parent_url = url, broken_link = link,
                                             status = st, error = err\<rparr>]
                            else records)
                     (as_completed W links) records0
          in (records1, url # links))"

text \<open>
  A checked URL is broken when its \<open>HEAD\<close> request returned a status, and the status is
  one of the error codes.
\<close>

definition is_broken :: "int set \<Rightarrow> world \<Rightarrow> string \<Rightarrow> bool" where
  "is_broken error_codes W u =
     (case requests_head W u of Returned c \<Rightarrow> c \<in> error_codes | Raised e \<Rightarrow> False)"

section \<open>Invariants of the traversal\<close>

text \<open>
  The log is in order when no URL was fetched twice and every fetched URL is in the
  visited set. A state extends another when it has visited at least as much, its log
  continues the other's, and it keeps the log in order.
\<close>

definition log_ok :: "crawl_state \<Rightarrow> bool" where
  "log_ok s = (distinct (scraped s) \<and> set (scraped s) \<subseteq> visited s)"

definition extends :: "crawl_state \<Rightarrow> crawl_state \<Rightarrow> bool" where
  "extends s t = (visited s \<subseteq> visited t
                  \<and> (\<exists>rest. scraped t = scraped s @ rest)
                  \<and> (log_ok s \<longrightarrow> log_ok t))"

text \<open>
  The scope of a tree: every child is a link its parent follows; below a local-file
  root every node is a local file; and every node but the root has the host
  \<open>base_domain\<close> or is a local file.
\<close>

definition tree_ok :: "library \<Rightarrow> string \<Rightarrow> node \<Rightarrow> bool" where
  "tree_ok L base_domain t =
     ((\<forall>n \<in> set (nodes t). \<forall>c \<in> set (node_children n).
          follows L (node_url n) base_domain (node_url c))
      \<and> (startswith (node_url t) ''file://'' \<longrightarrow>
           (\<forall>n \<in> set (nodes t). startswith (node_url n) ''file://''))
      \<and> (\<forall>n \<in> set (nodes t). n = t \<or> netloc (urlparse L (node_url n)) = base_domain
             \<or> startswith (node_url n) ''file://''))"

section \<open>A small site, for the examples\<close>

text \<open>
  The documents of the examples and, for each, what \<open>bs4\<close> reads from it.
  \<^item> \<open>doc_root\<close>, served at \<open>http://example.com/\<close>, links to \<open>/a\<close>, to a local file
    named with the site's host, and to another site.
  \<^item> \<open>doc_a\<close>, served at \<open>http://example.com/a\<close>, links back to the root.
  \<^item> \<open>doc_f\<close> is the file \<open>/srv/f.html\<close>; it links to the file \<open>/srv/g.html\<close> (\<open>doc_g\<close>),
    written with the host \<open>localhost\<close>, which has no links.
  \<^item> \<open>doc_p\<close>, served at \<open>http://example.com/p\<close>, has three outbound links.
  \<^item> \<open>doc_entity\<close> has a link written with a character reference, \<open>doc_meta\<close> a
    meta refresh.
\<close>

definition doc_root :: string where
  "doc_root = ''<title> Root </title><a href=\"/a\">A</a><a href=\"file://example.com/srv/f.html\">F</a><a href=\"http://other.org/x\">O</a>''"

definition doc_a :: string where
  "doc_a = ''<a href=\"http://example.com/\">up</a>''"

definition doc_f :: string where
  "doc_f = ''<a href=\"file://localhost/srv/g.html\">G</a>''"

definition doc_g :: string where
  "doc_g = ''<p>leaf</p>''"

definition doc_p :: string where
  "doc_p = ''<a href=\"/ok\">1</a><a href=\"/missing\">2</a><a href=\"http://down.example/x\">3</a>''"

definition doc_entity :: string where
  "doc_entity = ''<a href=\"http://foo.com/a&#x2B;b\">x</a>''"

definition doc_meta :: string where
  "doc_meta = ''<meta http-equiv=\"refresh\" content=\"0;url=/next.html\">''"

definition anchor :: "string \<Rightarrow> tag" where
  "anchor href = \<lparr>tag_name = ''a'', tag_attrs = [(''href'', href)]\<rparr>"

definition example_soup :: "string \<Rightarrow> soup" where
  "example_soup content =
     (if content = doc_root
      then \<lparr>find_all = [\<lparr>tag_name = ''title'', tag_attrs = []\<rparr>, anchor ''/a'',
                         anchor ''file://example.com/srv/f.html'', anchor ''http://other.org/x''],
            title_string = Some '' Root '', get_text = ''Root A F O''\<rparr>
      else if content = doc_a
      then \<lparr>find_all = [anchor ''http://example.com/''], title_string = None,
            get_text = ''up''\<rparr>
      else if content = doc_f
      then \<lparr>find_all = [anchor ''file://localhost/srv/g.html''], title_string = None,
            get_text = ''G''\<rparr>
      else if content = doc_g
      then \<lparr>find_all = [\<lparr>tag_name = ''p'', tag_attrs = []\<rparr>], title_string = None,
            get_text = ''leaf''\<rparr>
      else if content = doc_p
      then \<lparr>find_all = [anchor ''/ok'', anchor ''/missing'', anchor ''http://down.example/x''],
            title_string = None, get_text = ''1 2 3''\<rparr>
      else if content = doc_entity
      then \<lparr>find_all = [anchor ''http://foo.com/a+b''], title_string = None,
            get_text = ''x''\<rparr>
      else if content = doc_meta
      then \<lparr>find_all = [\<lparr>tag_name = ''meta'',
                           tag_attrs = [(''http-equiv'', ''refresh''),
                                        (''content'', ''0;url=/next.html'')]\<rparr>],
            title_string = None, get_text = []\<rparr>
      else \<lparr>find_all = [], title_string = None, get_text = []\<rparr>)"

fun unescape_x2B :: "string \<Rightarrow> string" where
  \<comment> \<open>\<open>html.unescape\<close> on a string whose only character reference is \<open>&#x2B;\<close>\<close>
  "unescape_x2B [] = []"
| "unescape_x2B (c # cs) =
     (if take 6 (c # cs) = ''&#x2B;'' then CHR ''+'' # unescape_x2B (drop 5 cs)
      else c # unescape_x2B cs)"

definition digits_value :: "string \<Rightarrow> int option" where
  "digits_value ds =
     (if ds \<noteq> [] \<and> list_all is_digit ds
      then Some (fold (\<lambda>c n. 10 * n + (int (of_char c) - 48)) ds 0)
      else None)"

definition py_int :: "string \<Rightarrow> int option" where
  \<comment> \<open>\<open>int(s)\<close> on an optional sign and decimal digits; \<open>None\<close> is \<open>ValueError\<close>\<close>
  "py_int s =
     (case s of
        [] \<Rightarrow> None
      | c # cs \<Rightarrow>
          if c = CHR ''-'' then map_option uminus (digits_value cs)
          else if c = CHR ''+'' then digits_value cs
          else digits_value s)"

definition example_library :: library where
  \<comment> \<open>the paths of the examples have no percent escapes, which \<open>url2pathname\<close> would decode\<close>
  "example_library =
     \<lparr>urlparse = py_urlparse, urljoin = py_urljoin, unescape = unescape_x2B,
      url2pathname = (\<lambda>p. p), BeautifulSoup = example_soup,
      set_slot = (\<lambda>S u. 0), int_of_str = py_int\<rparr>"

definition example_world :: world where
  "example_world =
     \<lparr>path_exists = (\<lambda>p. p = ''/srv/f.html'' \<or> p = ''/srv/g.html''),
      read_file = (\<lambda>p. if p = ''/srv/f.html'' then Returned doc_f
                       else if p = ''/srv/g.html'' then Returned doc_g
                       else Raised ''No such file or directory''),
      requests_get = (\<lambda>u. if u = ''http://example.com/'' then Returned (200, doc_root)
                          else if u = ''http://example.com/a'' then Returned (200, doc_a)
                          else if u = ''http://example.com/p'' then Returned (200, doc_p)
                          else if u = ''http://example.com/gone'' then Returned (404, [])
                          else Raised ''Connection refused''),
      requests_head = (\<lambda>u. if u = ''http://example.com/p'' then Returned 404
                           else if u = ''http://example.com/missing'' then Returned 404
                           else if u = ''http://example.com/gone'' then Returned 404
                           else if u = ''http://down.example/x'' then Raised ''Connection refused''
                           else Returned 200),
      finished_at = (\<lambda>u. 0)\<rparr>"

section \<open>Properties of the URL classifier\<close>

text \<open>
  C1, as amended. \<open>is_valid(u)\<close> is true exactly when the parsed scheme and the parsed
  network location of \<open>u\<close> are both non-empty, with no exemption: a URL whose network
  location is empty is not valid, whatever its scheme. Local-file URLs are accepted by
  the callers instead, which test the prefix \<open>file://\<close> before they ask \<open>is_valid\<close>.
\<close>

theorem is_valid_scheme_and_netloc:
  "(is_valid L u \<longleftrightarrow> scheme (urlparse L u) \<noteq> [] \<and> netloc (urlparse L u) \<noteq> [])
   \<and> (netloc (urlparse L u) = [] \<longrightarrow> \<not> is_valid L u)
   \<and> (startswith u ''file://'' \<longrightarrow> add_link_WBSLSC L base_url u links = insert u links)"
  by (simp add: is_valid_def add_link_WBSLSC_def Let_def)

section \<open>Properties of the link extractor\<close>

lemma resolved_Nil: "resolved L b acc [] = {}"
  by (simp add: resolved_def)

lemma resolved_Cons:
  "resolved L b acc (c # cs) =
     (if acc (urljoin L b c) then insert (urljoin L b c) (resolved L b acc cs)
      else resolved L b acc cs)"
  by (auto simp: resolved_def)

lemma resolved_append:
  "resolved L b acc (xs @ ys) = resolved L b acc xs \<union> resolved L b acc ys"
  by (auto simp: resolved_def)

lemma add_link_WBSLSC_insert:
  "add_link_WBSLSC L b u S = (if in_scope_WBSLSC L b u then insert u S else S)"
  by (auto simp: add_link_WBSLSC_def in_scope_WBSLSC_def)

lemma fold_add_link_WBSLSC:
  "fold (\<lambda>c S. add_link_WBSLSC L b (urljoin L b (h c)) S) cs S0
     = S0 \<union> resolved L b (in_scope_WBSLSC L b) (map h cs)"
  by (induction cs arbitrary: S0) (auto simp: resolved_Nil resolved_Cons add_link_WBSLSC_insert)

lemma fold_attrs_WBSLSC:
  "fold (\<lambda>attr links.
           case map_of (tag_attrs t) attr of
             None \<Rightarrow> links
           | Some url_candidate \<Rightarrow>
               if url_candidate \<noteq> []
               then add_link_WBSLSC L b (urljoin L b url_candidate) links
               else links) attrs S0
     = S0 \<union> resolved L b (in_scope_WBSLSC L b)
               (concat (map (\<lambda>attr. case map_of (tag_attrs t) attr of
                                        None \<Rightarrow> []
                                      | Some v \<Rightarrow> if v \<noteq> [] then [v] else []) attrs))"
  by (induction attrs arbitrary: S0)
     (auto simp: resolved_Nil resolved_Cons add_link_WBSLSC_insert split: option.splits)

lemma fold_tags_WBSLSC:
  "fold (\<lambda>t links.
           fold (\<lambda>attr links.
                   case map_of (tag_attrs t) attr of
                     None \<Rightarrow> links
                   | Some url_candidate \<Rightarrow>
                       if url_candidate \<noteq> []
                       then add_link_WBSLSC L b (urljoin L b url_candidate) links
                       else links) attrs links) tags S0
     = S0 \<union> resolved L b (in_scope_WBSLSC L b)
               (concat (map (\<lambda>t. concat (map (\<lambda>attr. case map_of (tag_attrs t) attr of
                                              None \<Rightarrow> []
                                            | Some v \<Rightarrow> if v \<noteq> [] then [v] else [])
                                   attrs)) tags))"
  by (induction tags arbitrary: S0)
     (auto simp: resolved_Nil resolved_append fold_attrs_WBSLSC)

lemma fold_meta_WBSLSC:
  "fold (\<lambda>meta links.
           case search_url_param
                  (case map_of (tag_attrs meta) ''content'' of
                     None \<Rightarrow> [] | Some content \<Rightarrow> content) of
             None \<Rightarrow> links
           | Some group1 \<Rightarrow>
               add_link_WBSLSC L b (urljoin L b (strip_quotes (strip group1))) links) metas S0
     = S0 \<union> resolved L b (in_scope_WBSLSC L b)
               (concat (map (\<lambda>meta. case search_url_param
                                (case map_of (tag_attrs meta) ''content'' of
                                   None \<Rightarrow> [] | Some content \<Rightarrow> content) of
                            None \<Rightarrow> []
                          | Some group1 \<Rightarrow> [strip_quotes (strip group1)]) metas))"
  by (induction metas arbitrary: S0)
     (auto simp: resolved_Nil resolved_Cons resolved_append add_link_WBSLSC_insert split: option.splits)

lemma get_all_links_WBSLSC_union:
  "get_all_links_WBSLSC L html_content base_url =
     resolved L base_url (in_scope_WBSLSC L base_url)
       (attribute_scan url_attrs_WBSLSC (BeautifulSoup L html_content))
     \<union> resolved L base_url (in_scope_WBSLSC L base_url)
         (meta_refresh_scan (BeautifulSoup L html_content))
     \<union> resolved L base_url (in_scope_WBSLSC L base_url) (inline_css_scan html_content)
     \<union> resolved L base_url (in_scope_WBSLSC L base_url) (raw_text_scan html_content)"
proof -
  have css: "fold (\<lambda>css_url links.
                    add_link_WBSLSC L base_url
                      (urljoin L base_url (strip_quotes (strip css_url))) links) cs S0
           = S0 \<union> resolved L base_url (in_scope_WBSLSC L base_url) (map (\<lambda>css_url. strip_quotes (strip css_url)) cs)" for cs S0
    by (rule fold_add_link_WBSLSC)
  have raw: "fold (\<lambda>match links.
                    add_link_WBSLSC L base_url (urljoin L base_url match) links) cs S0
           = S0 \<union> resolved L base_url (in_scope_WBSLSC L base_url) cs" for cs S0
    using fold_add_link_WBSLSC [of L base_url "\<lambda>c. c" cs S0] by simp
  show ?thesis
    unfolding get_all_links_WBSLSC_def Let_def
    by (simp add: fold_tags_WBSLSC fold_meta_WBSLSC css raw meta_refresh_scan_def
                  attribute_scan_def inline_css_scan_def raw_text_scan_def Un_assoc)
qed

lemma fold_attrs_brokenScraper:
  "fold (\<lambda>attr links.
           case map_of (tag_attrs t) attr of
             None \<Rightarrow> links
           | Some url_candidate \<Rightarrow>
               if url_candidate \<noteq> []
               then (let full_url = urljoin L b (unescape L url_candidate)
                     in if startswith full_url ''file://'' \<or> is_valid L full_url
                        then insert full_url links else links)
               else links) attrs S0
     = S0 \<union> resolved L b (\<lambda>u. startswith u ''file://'' \<or> is_valid L u)
               (map (unescape L)
                  (concat (map (\<lambda>attr. case map_of (tag_attrs t) attr of
                                           None \<Rightarrow> []
                                         | Some v \<Rightarrow> if v \<noteq> [] then [v] else []) attrs)))"
  by (induction attrs arbitrary: S0)
     (auto simp: resolved_Nil resolved_Cons Let_def split: option.splits)

lemma fold_tags_brokenScraper:
  "fold (\<lambda>t links.
           fold (\<lambda>attr links.
                   case map_of (tag_attrs t) attr of
                     None \<Rightarrow> links
                   | Some url_candidate \<Rightarrow>
                       if url_candidate \<noteq> []
                       then (let full_url = urljoin L b (unescape L url_candidate)
                             in if startswith full_url ''file://'' \<or> is_valid L full_url
                                then insert full_url links else links)
                       else links) attrs links) tags S0
     = S0 \<union> resolved L b (\<lambda>u. startswith u ''file://'' \<or> is_valid L u)
               (map (unescape L)
                  (concat (map (\<lambda>t. concat (map (\<lambda>attr. case map_of (tag_attrs t) attr of
                                              None \<Rightarrow> []
                                            | Some v \<Rightarrow> if v \<noteq> [] then [v] else [])
                                   attrs)) tags)))"
  by (induction tags arbitrary: S0)
     (auto simp: resolved_Nil resolved_append fold_attrs_brokenScraper)

lemma fold_raw_brokenScraper:
  "fold (\<lambda>match links.
           let full_url = urljoin L b (unescape L match)
           in if is_valid L full_url then insert full_url links else links) ms S0
     = S0 \<union> resolved L b (is_valid L) (map (unescape L) ms)"
  by (induction ms arbitrary: S0) (auto simp: resolved_Nil resolved_Cons Let_def)

lemma get_all_links_brokenScraper_union:
  "get_all_links_brokenScraper L html_content base_url =
     resolved L base_url (\<lambda>u. startswith u ''file://'' \<or> is_valid L u)
       (map (unescape L)
          (attribute_scan url_attrs_brokenScraper (BeautifulSoup L html_content)))
     \<union> resolved L base_url (is_valid L) (map (unescape L) (raw_text_scan html_content))"
  unfolding get_all_links_brokenScraper_def fold_tags_brokenScraper fold_raw_brokenScraper
  by (simp add: Let_def attribute_scan_def raw_text_scan_def)

text \<open>
  C7, as amended. The crawler's extractor returns the union of the four strategies
  (attribute scan over eight attributes, meta refresh, inline CSS, raw-text pattern),
  each candidate resolved against the base URL and kept when it is a local-file URL or
  has the base's host. The scanner's extractor returns the union of two strategies only,
  the attribute scan over five attributes and the raw-text pattern, each candidate
  unescaped and then resolved. The output is a set, so duplicates collapse.
\<close>

theorem extractor_strategies:
  "get_all_links_WBSLSC L html_content base_url =
     resolved L base_url (in_scope_WBSLSC L base_url)
       (attribute_scan url_attrs_WBSLSC (BeautifulSoup L html_content))
     \<union> resolved L base_url (in_scope_WBSLSC L base_url)
         (meta_refresh_scan (BeautifulSoup L html_content))
     \<union> resolved L base_url (in_scope_WBSLSC L base_url) (inline_css_scan html_content)
     \<union> resolved L base_url (in_scope_WBSLSC L base_url) (raw_text_scan html_content)
   \<and> get_all_links_brokenScraper L html_content base_url =
     resolved L base_url (\<lambda>u. startswith u ''file://'' \<or> is_valid L u)
       (map (unescape L)
          (attribute_scan url_attrs_brokenScraper (BeautifulSoup L html_content)))
     \<union> resolved L base_url (is_valid L) (map (unescape L) (raw_text_scan html_content))"
  using get_all_links_WBSLSC_union get_all_links_brokenScraper_union by blast

lemma resolved_iff:
  "u \<in> resolved L b acc cs \<longleftrightarrow> (\<exists>c \<in> set cs. u = urljoin L b c) \<and> acc u"
  by (auto simp: resolved_def)

text \<open>
  C2, as amended. In the scanner's extractor every raw candidate is unescaped before
  it is resolved against the base URL: a URL is in the output exactly when it is
  \<open>urljoin(base_url, html.unescape(c))\<close> for a raw candidate \<open>c\<close> and is accepted. The
  crawler's extractor applies no unescaping: its output holds \<open>urljoin(base_url, c)\<close> for
  the raw candidates \<open>c\<close> as they are found.
\<close>

theorem unescape_before_resolution:
  "(u \<in> get_all_links_brokenScraper L html_content base_url \<longleftrightarrow>
      (\<exists>c \<in> set (attribute_scan url_attrs_brokenScraper (BeautifulSoup L html_content)).
          u = urljoin L base_url (unescape L c)
          \<and> (startswith u ''file://'' \<or> is_valid L u))
      \<or> (\<exists>c \<in> set (raw_text_scan html_content).
          u = urljoin L base_url (unescape L c) \<and> is_valid L u))
   \<and> (u \<in> get_all_links_WBSLSC L html_content base_url \<longleftrightarrow>
      (\<exists>c \<in> set (attribute_scan url_attrs_WBSLSC (BeautifulSoup L html_content))
              \<union> set (meta_refresh_scan (BeautifulSoup L html_content))
              \<union> set (inline_css_scan html_content)
              \<union> set (raw_text_scan html_content).
          u = urljoin L base_url c \<and> in_scope_WBSLSC L base_url u))"
  unfolding get_all_links_WBSLSC_union get_all_links_brokenScraper_union
  by (auto simp: resolved_iff)

section \<open>Properties of the tree builder\<close>

lemma fold_invariant:
  assumes "I a" and "\<And>x acc. x \<in> set xs \<Longrightarrow> I acc \<Longrightarrow> I (f x acc)"
  shows "I (fold f xs a)"
  using assms by (induction xs arbitrary: a) auto

lemma extends_refl: "extends s s"
  by (simp add: extends_def)

lemma extends_trans: "extends s t \<Longrightarrow> extends t u \<Longrightarrow> extends s u"
  by (auto simp: extends_def)

lemma extends_visit:
  "url \<notin> visited s \<Longrightarrow>
     extends s (s\<lparr>visited := insert url (visited s), scraped := scraped s @ [url]\<rparr>)"
  by (auto simp: extends_def log_ok_def)

lemma build_tree_visited:
  "url \<in> visited s \<Longrightarrow> build_tree L W url base_domain max_depth s = (None, s)"
  by (simp add: build_tree.simps)

lemma build_tree_extends:
  "url \<notin> visited s \<Longrightarrow>
     extends (s\<lparr>visited := insert url (visited s), scraped := scraped s @ [url]\<rparr>)
             (snd (build_tree L W url base_domain max_depth s))"
proof (induction L W url base_domain max_depth s rule: build_tree.induct)
  case (1 L W url base_domain max_depth s)
  let ?s1 = "s\<lparr>visited := insert url (visited s), scraped := scraped s @ [url]\<rparr>"
  note fresh = \<open>url \<notin> visited s\<close>
  show ?case
  proof (cases "scrape_page_WBSLSC L W url")
    case None
    with fresh show ?thesis by (simp add: build_tree.simps extends_refl)
  next
    case (Some page_data)
    show ?thesis
    proof (cases "0 < max_depth")
      case False
      with fresh Some show ?thesis by (simp add: build_tree.simps extends_refl)
    next
      case deep: True
      let ?step = "\<lambda>link acc.
                     if follows L url base_domain link
                     then (case build_tree L W link base_domain (max_depth - 1) (snd acc) of
                             (None, s') \<Rightarrow> (fst acc, s')
                           | (Some child, s') \<Rightarrow> (fst acc @ [child], s'))
                     else acc"
      have "extends ?s1 (snd (fold ?step (set_iter L (pd_links page_data)) ([], ?s1)))"
      proof (rule fold_invariant [where I = "\<lambda>acc. extends ?s1 (snd acc)"])
        show "extends ?s1 (snd ([], ?s1))" by (simp add: extends_refl)
      next
        fix link and acc :: "node list \<times> crawl_state"
        assume link: "link \<in> set (set_iter L (pd_links page_data))"
          and acc: "extends ?s1 (snd acc)"
        show "extends ?s1 (snd (?step link acc))"
        proof (cases "follows L url base_domain link")
          case False
          with acc show ?thesis by simp
        next
          case True
          let ?r = "build_tree L W link base_domain (max_depth - 1) (snd acc)"
          have snd_step: "snd (?step link acc) = snd ?r"
            using True by (auto split: prod.splits option.splits)
          have "extends (snd acc) (snd ?r)"
          proof (cases "link \<in> visited (snd acc)")
            case True
            then show ?thesis by (simp add: build_tree_visited extends_refl)
          next
            case False
            from "1.IH" [OF fresh Some deep link True False] extends_visit [OF False]
            show ?thesis by (rule extends_trans [rotated])
          qed
          with acc show ?thesis unfolding snd_step by (rule extends_trans)
        qed
      qed
      with fresh Some deep show ?thesis
        by (subst build_tree.simps) (simp add: case_prod_beta)
    qed
  qed
qed

text \<open>
  C3. \<open>build_tree\<close> returns no node, and leaves the state as it is, for a URL in the
  visited set; otherwise the URL is in the visited set afterwards and its fetch is the
  next entry of the log. A log without repetition, whose URLs are all visited, stays so:
  in a traversal that starts with an empty visited set no URL is fetched twice,
  whatever the link graph. \<open>build_tree\<close> is a total function (its recursion is bounded
  by the depth), so every traversal is finite.
\<close>

theorem each_url_fetched_once:
  "(url \<in> visited s \<longrightarrow> build_tree L W url base_domain max_depth s = (None, s))
   \<and> url \<in> visited (snd (build_tree L W url base_domain max_depth s))
   \<and> (url \<notin> visited s \<longrightarrow>
        (\<exists>rest. scraped (snd (build_tree L W url base_domain max_depth s))
                  = scraped s @ [url] @ rest))
   \<and> (distinct (scraped s) \<and> set (scraped s) \<subseteq> visited s \<longrightarrow>
        distinct (scraped (snd (build_tree L W url base_domain max_depth s)))
        \<and> set (scraped (snd (build_tree L W url base_domain max_depth s)))
            \<subseteq> visited (snd (build_tree L W url base_domain max_depth s)))
   \<and> distinct (scraped (snd (build_tree L W url base_domain max_depth
                                 \<lparr>visited = {}, scraped = []\<rparr>)))"
proof -
  have ext: "url \<notin> visited t \<Longrightarrow>
               extends t (snd (build_tree L W url base_domain max_depth t))
               \<and> extends (t\<lparr>visited := insert url (visited t), scraped := scraped t @ [url]\<rparr>)
                         (snd (build_tree L W url base_domain max_depth t))" for t
    using build_tree_extends extends_visit extends_trans by blast
  have 1: "url \<in> visited s \<longrightarrow> build_tree L W url base_domain max_depth s = (None, s)"
    by (simp add: build_tree_visited)
  have 2: "url \<in> visited (snd (build_tree L W url base_domain max_depth s))"
  proof (cases "url \<in> visited s")
    case True then show ?thesis by (simp add: build_tree_visited)
  next
    case False
    with ext [of s] show ?thesis by (auto simp: extends_def)
  qed
  have 3: "url \<notin> visited s \<longrightarrow>
        (\<exists>rest. scraped (snd (build_tree L W url base_domain max_depth s))
                  = scraped s @ [url] @ rest)"
    using ext [of s] by (auto simp: extends_def)
  have 4: "log_ok t \<longrightarrow> log_ok (snd (build_tree L W url base_domain max_depth t))" for t
  proof (cases "url \<in> visited t")
    case True then show ?thesis by (simp add: build_tree_visited)
  next
    case False
    with ext [of t] show ?thesis by (auto simp: extends_def)
  qed
  have 5: "distinct (scraped (snd (build_tree L W url base_domain max_depth
                                 \<lparr>visited = {}, scraped = []\<rparr>)))"
    using 4 [of "\<lparr>visited = {}, scraped = []\<rparr>"] by (simp add: log_ok_def)
  from 1 2 3 4 [of s] 5 show ?thesis unfolding log_ok_def by blast
qed

lemma scrape_page_WBSLSC_url:
  "scrape_page_WBSLSC L W url = Some page_data \<Longrightarrow> pd_url page_data = url"
  by (auto simp: scrape_page_WBSLSC_def Let_def split: if_splits outcome.splits)

lemma tree_ok_Node:
  assumes "\<forall>c \<in> set cs. follows L u base_domain (node_url c) \<and> tree_ok L base_domain c"
  shows "tree_ok L base_domain (Node u ti ls cs)"
proof -
  have child: "startswith u ''file://'' \<Longrightarrow> c \<in> set cs \<Longrightarrow> startswith (node_url c) ''file://''"
    and child': "\<not> startswith u ''file://'' \<Longrightarrow> c \<in> set cs \<Longrightarrow> netloc (urlparse L (node_url c)) = base_domain" for c
    using assms by (auto simp: follows_def)
  show ?thesis
    unfolding tree_ok_def
  proof (intro conjI ballI impI)
    fix n c assume "n \<in> set (nodes (Node u ti ls cs))" "c \<in> set (node_children n)"
    then show "follows L (node_url n) base_domain (node_url c)"
      using assms by (auto simp: tree_ok_def)
  next
    fix n assume "startswith (node_url (Node u ti ls cs)) ''file://''"
      and "n \<in> set (nodes (Node u ti ls cs))"
    then show "startswith (node_url n) ''file://''"
      using assms child by (auto simp: tree_ok_def)
  next
    fix n assume "n \<in> set (nodes (Node u ti ls cs))"
    then consider "n = Node u ti ls cs" | c where "c \<in> set cs" "n \<in> set (nodes c)"
      by auto
    then show "n = Node u ti ls cs \<or> netloc (urlparse L (node_url n)) = base_domain
                 \<or> startswith (node_url n) ''file://''"
    proof cases
      case 1 then show ?thesis by simp
    next
      case 2
      show ?thesis
      proof (cases "n = c")
        case True
        with 2 child child' show ?thesis by (cases "startswith u ''file://''") auto
      next
        case False
        with 2 assms show ?thesis by (auto simp: tree_ok_def)
      qed
    qed
  qed
qed

lemma build_tree_scope:
  "build_tree L W url base_domain max_depth s = (Some t, s')
     \<Longrightarrow> node_url t = url \<and> tree_ok L base_domain t"
proof (induction L W url base_domain max_depth s arbitrary: t s' rule: build_tree.induct)
  case (1 L W url base_domain max_depth s)
  from "1.prems" have fresh: "url \<notin> visited s"
    by (auto simp: build_tree.simps split: if_splits)
  from "1.prems" fresh obtain page_data where Some: "scrape_page_WBSLSC L W url = Some page_data"
    by (subst (asm) build_tree.simps) (auto split: option.splits)
  have u: "pd_url page_data = url" using Some by (rule scrape_page_WBSLSC_url)
  show ?case
  proof (cases "0 < max_depth")
    case False
    with "1.prems" fresh Some have "t = Node url (pd_title page_data) (sorted_list_of_set (pd_links page_data)) []"
      by (subst (asm) build_tree.simps) (auto simp: u)
    then show ?thesis using tree_ok_Node [of "[]" L url base_domain] by simp
  next
    case deep: True
    let ?s1 = "s\<lparr>visited := insert url (visited s), scraped := scraped s @ [url]\<rparr>"
    let ?step = "\<lambda>link acc.
                   if follows L url base_domain link
                   then (case build_tree L W link base_domain (max_depth - 1) (snd acc) of
                           (None, s') \<Rightarrow> (fst acc, s')
                         | (Some child, s') \<Rightarrow> (fst acc @ [child], s'))
                   else acc"
    let ?I = "\<lambda>acc :: node list \<times> crawl_state.
                \<forall>c \<in> set (fst acc). follows L url base_domain (node_url c) \<and> tree_ok L base_domain c"
    have inv: "?I (fold ?step (set_iter L (pd_links page_data)) ([], ?s1))"
    proof (rule fold_invariant [where I = ?I])
      show "?I ([], ?s1)" by simp
    next
      fix link and acc :: "node list \<times> crawl_state"
      assume link: "link \<in> set (set_iter L (pd_links page_data))" and acc: "?I acc"
      show "?I (?step link acc)"
      proof (cases "follows L url base_domain link")
        case False
        with acc show ?thesis by simp
      next
        case True
        obtain r s2 where r: "build_tree L W link base_domain (max_depth - 1) (snd acc) = (r, s2)"
          by (cases "build_tree L W link base_domain (max_depth - 1) (snd acc)")
        show ?thesis
        proof (cases r)
          case None
          with True r acc show ?thesis by simp
        next
          case (Some child)
          with "1.IH" [OF fresh \<open>scrape_page_WBSLSC L W url = Some page_data\<close> deep link True] r
          have "node_url child = link \<and> tree_ok L base_domain child" by simp
          with True r Some acc show ?thesis by auto
        qed
      qed
    qed
    from "1.prems" fresh Some deep
    have "t = Node url (pd_title page_data) (sorted_list_of_set (pd_links page_data))
                (fst (fold ?step (set_iter L (pd_links page_data)) ([], ?s1)))"
      by (subst (asm) build_tree.simps) (auto simp: u case_prod_beta)
    then show ?thesis using tree_ok_Node [OF inv] by simp
  qed
qed

text \<open>
  C4, as amended. The scope is decided at each node from the node's own URL: a child
  of a node whose URL starts with \<open>file://\<close> starts with \<open>file://\<close>, and a child of any
  other node has the host \<open>base_domain\<close>. So below a local-file root every node is a
  local file; and below any root, every node other than the root has the host
  \<open>base_domain\<close> or is a local file.
\<close>

theorem scope_rule:
  assumes "build_tree L W url base_domain max_depth s = (Some t, s')"
  shows "node_url t = url
         \<and> (\<forall>n \<in> set (nodes t). \<forall>c \<in> set (node_children n).
               if startswith (node_url n) ''file://'' then startswith (node_url c) ''file://''
               else netloc (urlparse L (node_url c)) = base_domain)
         \<and> (startswith url ''file://'' \<longrightarrow>
               (\<forall>n \<in> set (nodes t). startswith (node_url n) ''file://''))
         \<and> (\<forall>n \<in> set (nodes t). n = t \<or> netloc (urlparse L (node_url n)) = base_domain
               \<or> startswith (node_url n) ''file://'')"
  using build_tree_scope [OF assms] unfolding tree_ok_def follows_def by simp

lemma resolved_finite: "finite (resolved L b acc cs)"
  by (simp add: resolved_def)

lemma scrape_page_WBSLSC_finite:
  "scrape_page_WBSLSC L W url = Some page_data \<Longrightarrow> finite (pd_links page_data)"
  by (auto simp: scrape_page_WBSLSC_def Let_def get_all_links_WBSLSC_union resolved_finite
           split: if_splits outcome.splits)

lemma scrape_page_brokenScraper_finite:
  "scrape_page_brokenScraper L W url = Some page_data \<Longrightarrow> finite (pd_links page_data)"
  by (auto simp: scrape_page_brokenScraper_def Let_def get_all_links_brokenScraper_union
                 resolved_finite
           split: if_splits outcome.splits)

lemma build_tree_leaf:
  assumes "max_depth \<le> 0" and "url \<notin> visited s"
    and "scrape_page_WBSLSC L W url = Some page_data"
  shows "build_tree L W url base_domain max_depth s =
           (Some (Node url (pd_title page_data) (sorted_list_of_set (pd_links page_data)) []),
            s\<lparr>visited := insert url (visited s), scraped := scraped s @ [url]\<rparr>)"
  using assms scrape_page_WBSLSC_url [OF assms(3)]
  by (subst build_tree.simps) simp

text \<open>
  C5. When the fetch of a URL that was not visited succeeds, \<open>build_tree\<close> with depth 0
  returns one node without children, whatever links the page has; the node has the
  URL, the title of the page and the sorted list of its links.
\<close>

theorem depth_zero_single_node:
  assumes "url \<notin> visited s" and "scrape_page_WBSLSC L W url = Some page_data"
  shows "build_tree L W url base_domain 0 s =
           (Some (Node url (pd_title page_data) (sorted_list_of_set (pd_links page_data)) []),
            s\<lparr>visited := insert url (visited s), scraped := scraped s @ [url]\<rparr>)
         \<and> sorted (sorted_list_of_set (pd_links page_data))
         \<and> set (sorted_list_of_set (pd_links page_data)) = pd_links page_data"
  using build_tree_leaf [of 0, OF _ assms] scrape_page_WBSLSC_finite [OF assms(2)]
  by simp

text \<open>
  C10. With a depth of zero or less \<open>build_tree\<close> does what it does with depth 0: a
  fetched URL gives one node without children. The driver takes the integer it reads
  as it is, negative or not; it falls back to 1 only when the input is empty or is not
  an integer.
\<close>

theorem nonpositive_depth_no_recursion:
  "(max_depth \<le> 0 \<and> url \<notin> visited s \<and> scrape_page_WBSLSC L W url = Some page_data \<longrightarrow>
      build_tree L W url base_domain max_depth s = build_tree L W url base_domain 0 s
      \<and> (\<exists>t s'. build_tree L W url base_domain max_depth s = (Some t, s')
                 \<and> node_children t = []))
   \<and> (max_depth_input \<noteq> [] \<and> int_of_str L max_depth_input = Some n \<longrightarrow>
        read_max_depth L max_depth_input = n)"
proof (intro conjI impI)
  assume a: "max_depth \<le> 0 \<and> url \<notin> visited s \<and> scrape_page_WBSLSC L W url = Some page_data"
  then have 1: "build_tree L W url base_domain max_depth s =
           (Some (Node url (pd_title page_data) (sorted_list_of_set (pd_links page_data)) []),
            s\<lparr>visited := insert url (visited s), scraped := scraped s @ [url]\<rparr>)"
    by (simp add: build_tree_leaf)
  from a have 2: "build_tree L W url base_domain 0 s =
           (Some (Node url (pd_title page_data) (sorted_list_of_set (pd_links page_data)) []),
            s\<lparr>visited := insert url (visited s), scraped := scraped s @ [url]\<rparr>)"
    by (simp add: build_tree_leaf)
  show "build_tree L W url base_domain max_depth s = build_tree L W url base_domain 0 s"
    using 1 2 by simp
  show "\<exists>t s'. build_tree L W url base_domain max_depth s = (Some t, s') \<and> node_children t = []"
    using 1 by simp
next
  assume "max_depth_input \<noteq> [] \<and> int_of_str L max_depth_input = Some n"
  then show "read_max_depth L max_depth_input = n"
    by (simp add: read_max_depth_def)
qed

section \<open>Properties of the link checker and the scanner\<close>

text \<open>
  C8. \<open>check_link\<close> returns the status of a completed \<open>HEAD\<close> request, with the message
  \<open>Status <code>\<close> when the status is an error code and with the empty string
  otherwise; when the request raises, it returns no status and the text of the
  exception.
\<close>

theorem check_link_result:
  "(requests_head W url = Returned c \<and> c \<in> error_codes \<longrightarrow>
      check_link error_codes W url = (Some c, ''Status '' @ str_int c))
   \<and> (requests_head W url = Returned c \<and> c \<notin> error_codes \<longrightarrow>
      check_link error_codes W url = (Some c, []))
   \<and> (requests_head W url = Raised e \<longrightarrow> check_link error_codes W url = (None, e))"
  by (simp add: check_link_def)

lemma mset_set_iter: "mset (set_iter L S) = mset_set S"
  unfolding set_iter_def
  by (simp, metis mset_sorted_list_of_multiset sorted_list_of_mset_set)

lemma set_set_iter: "finite S \<Longrightarrow> set (set_iter L S) = S"
  by (simp add: set_iter_def)

lemma distinct_set_iter: "distinct (set_iter L S)"
  by (simp add: set_iter_def)

lemma fold_check_links:
  "fold (\<lambda>link records.
           case check_link error_codes W link of
             (None, err) \<Rightarrow> records
           | (Some st, err) \<Rightarrow>
               if st \<in> error_codes
               then records @ [\<lparr>parent_url = url, broken_link = link,
                                status = st, error = err\<rparr>]
               else records) links records0
     = records0 @ concat (map (\<lambda>link. case requests_head W link of
                           Raised e \<Rightarrow> []
                         | Returned c \<Rightarrow>
                             if c \<in> error_codes
                             then [\<lparr>parent_url = url, broken_link = link, status = c,
                                        error = ''Status '' @ str_int c\<rparr>]
                             else []) links)"
  by (induction links arbitrary: records0)
     (auto simp: check_link_def split: outcome.splits)

lemma process_input_url_records:
  assumes "scrape_page_brokenScraper L W url = Some page_data"
  shows "fst (process_input_url error_codes L W url) =
           concat (map (\<lambda>link. case requests_head W link of
                           Raised e \<Rightarrow> []
                         | Returned c \<Rightarrow>
                             if c \<in> error_codes
                             then [\<lparr>parent_url = (url::string), broken_link = link, status = c,
                                        error = ''Status '' @ str_int c\<rparr>]
                             else [])
                  (url # as_completed W (set_iter L (pd_links page_data))))"
  using assms unfolding process_input_url_def fold_check_links
  by (simp add: Let_def check_link_def split: outcome.splits)

lemma broken_links_concat:
  "map broken_link (concat (map (\<lambda>link. case requests_head W link of
                           Raised e \<Rightarrow> []
                         | Returned c \<Rightarrow>
                             if c \<in> error_codes
                             then [\<lparr>parent_url = (url::string), broken_link = link, status = c,
                                        error = ''Status '' @ str_int c\<rparr>]
                             else []) links))
     = filter (is_broken error_codes W) links"
  by (induction links) (auto simp: is_broken_def split: outcome.splits)

text \<open>
  C6. When the page is fetched, the scanner checks the page and each of its links
  once, and the broken links it records are exactly the checked URLs whose \<open>HEAD\<close>
  request returned a status that is an error code, the page first and the links in the
  order their checks complete. A check that raised gives no record. Every record names
  the page as parent and carries the status the check returned.
\<close>

theorem scanner_records_broken_only:
  assumes "scrape_page_brokenScraper L W url = Some page_data"
  shows "map broken_link (fst (process_input_url error_codes L W url))
           = filter (is_broken error_codes W) (url # as_completed W (set_iter L (pd_links page_data)))
         \<and> mset (as_completed W (set_iter L (pd_links page_data))) = mset_set (pd_links page_data)
         \<and> (\<forall>r \<in> set (fst (process_input_url error_codes L W url)).
               parent_url r = url \<and> status r \<in> error_codes
               \<and> requests_head W (broken_link r) = Returned (status r))"
proof (intro conjI)
  show "map broken_link (fst (process_input_url error_codes L W url))
           = filter (is_broken error_codes W) (url # as_completed W (set_iter L (pd_links page_data)))"
    unfolding process_input_url_records [OF assms] by (rule broken_links_concat)
  show "mset (as_completed W (set_iter L (pd_links page_data))) = mset_set (pd_links page_data)"
    by (simp add: as_completed_def mset_set_iter)
  show "\<forall>r \<in> set (fst (process_input_url error_codes L W url)).
               parent_url r = url \<and> status r \<in> error_codes
               \<and> requests_head W (broken_link r) = Returned (status r)"
    unfolding process_input_url_records [OF assms]
    by (auto split: outcome.splits if_splits)
qed

text \<open>
  C9. The scrape of the seed fails when the local file is missing, when the \<open>GET\<close>
  request returns a status other than 200, and when it raises. After a failed scrape
  \<open>process_input_url\<close> returns no record and has checked no URL, the seed included.
\<close>

theorem failed_scrape_no_check:
  "(startswith url ''file://'' \<and> \<not> path_exists W (url2pathname L (path (urlparse L url)))
      \<longrightarrow> scrape_page_brokenScraper L W url = None)
   \<and> (\<not> startswith url ''file://'' \<and> requests_get W url = Returned (code, body) \<and> code \<noteq> 200
      \<longrightarrow> scrape_page_brokenScraper L W url = None)
   \<and> (\<not> startswith url ''file://'' \<and> requests_get W url = Raised e
      \<longrightarrow> scrape_page_brokenScraper L W url = None)
   \<and> (scrape_page_brokenScraper L W url = None
      \<longrightarrow> process_input_url error_codes L W url = ([], []))"
  by (simp add: scrape_page_brokenScraper_def process_input_url_def Let_def)

section \<open>The examples, evaluated\<close>

subsection \<open>The library and the site at the strings of the examples\<close>

lemma ex_head:
  "requests_head example_world ''http://example.com/p'' = Returned 404"
  "requests_head example_world ''http://example.com/missing'' = Returned 404"
  "requests_head example_world ''http://example.com/ok'' = Returned 200"
  "requests_head example_world ''http://down.example/x'' = Raised ''Connection refused''"
  "requests_head example_world ''http://example.com/gone'' = Returned 404"
  by (simp_all add: example_world_def)

lemma ex_str_int: "str_int 404 = ''404''"
  by code_simp

lemma ex_lib:
  "urlparse example_library = py_urlparse"
  "urljoin example_library = py_urljoin"
  "unescape example_library = unescape_x2B"
  "url2pathname example_library = (\<lambda>p. p)"
  "BeautifulSoup example_library = example_soup"
  "set_slot example_library = (\<lambda>S u. 0)"
  "int_of_str example_library = py_int"
  by (simp_all add: example_library_def)

lemma ex_urlparse:
  "py_urlparse ''http://example.com/'' =
     \<lparr>scheme = ''http'', netloc = ''example.com'', path = ''/'', params = [], query = [],
      fragment = []\<rparr>"
  "py_urlparse ''http://example.com/a'' =
     \<lparr>scheme = ''http'', netloc = ''example.com'', path = ''/a'', params = [], query = [],
      fragment = []\<rparr>"
  "py_urlparse ''http://other.org/x'' =
     \<lparr>scheme = ''http'', netloc = ''other.org'', path = ''/x'', params = [], query = [],
      fragment = []\<rparr>"
  "py_urlparse ''file://example.com/srv/f.html'' =
     \<lparr>scheme = ''file'', netloc = ''example.com'', path = ''/srv/f.html'', params = [],
      query = [], fragment = []\<rparr>"
  "py_urlparse ''file://localhost/srv/g.html'' =
     \<lparr>scheme = ''file'', netloc = ''localhost'', path = ''/srv/g.html'', params = [],
      query = [], fragment = []\<rparr>"
  "py_urlparse ''file:///tmp/a.html'' =
     \<lparr>scheme = ''file'', netloc = [], path = ''/tmp/a.html'', params = [],
      query = [], fragment = []\<rparr>"
  by code_simp+

lemma ex_urlparse_foo:
  "py_urlparse ''http://foo.com/'' =
     \<lparr>scheme = ''http'', netloc = ''foo.com'', path = ''/'', params = [], query = [],
      fragment = []\<rparr>"
  "py_urlparse ''http://foo.com/a+b'' =
     \<lparr>scheme = ''http'', netloc = ''foo.com'', path = ''/a+b'', params = [], query = [],
      fragment = []\<rparr>"
  "py_urlparse ''http://foo.com/a&#x2B;b'' =
     \<lparr>scheme = ''http'', netloc = ''foo.com'', path = ''/a&'', params = [], query = [],
      fragment = ''x2B;b''\<rparr>"
  "py_urlparse ''http://example.com/next.html'' =
     \<lparr>scheme = ''http'', netloc = ''example.com'', path = ''/next.html'', params = [],
      query = [], fragment = []\<rparr>"
  by code_simp+

lemma ex_urlparse_p:
  "py_urlparse ''http://example.com/p'' =
     \<lparr>scheme = ''http'', netloc = ''example.com'', path = ''/p'', params = [], query = [],
      fragment = []\<rparr>"
  "py_urlparse ''http://example.com/ok'' =
     \<lparr>scheme = ''http'', netloc = ''example.com'', path = ''/ok'', params = [], query = [],
      fragment = []\<rparr>"
  "py_urlparse ''http://example.com/missing'' =
     \<lparr>scheme = ''http'', netloc = ''example.com'', path = ''/missing'', params = [],
      query = [], fragment = []\<rparr>"
  "py_urlparse ''http://down.example/x'' =
     \<lparr>scheme = ''http'', netloc = ''down.example'', path = ''/x'', params = [], query = [],
      fragment = []\<rparr>"
  by code_simp+

lemma ex_urljoin:
  "py_urljoin ''http://example.com/'' ''/a'' = ''http://example.com/a''"
  "py_urljoin ''http://example.com/'' ''file://example.com/srv/f.html''
     = ''file://example.com/srv/f.html''"
  "py_urljoin ''http://example.com/'' ''http://other.org/x'' = ''http://other.org/x''"
  "py_urljoin ''http://example.com/a'' ''http://example.com/'' = ''http://example.com/''"
  "py_urljoin ''file://example.com/srv/f.html'' ''file://localhost/srv/g.html''
     = ''file://localhost/srv/g.html''"
  "py_urljoin ''http://example.com/'' ''/next.html'' = ''http://example.com/next.html''"
  by code_simp+

lemma ex_urljoin_foo:
  "py_urljoin ''http://foo.com/'' ''http://foo.com/a+b'' = ''http://foo.com/a+b''"
  "py_urljoin ''http://foo.com/'' ''http://foo.com/a&#x2B;b'' = ''http://foo.com/a&#x2B;b''"
  by code_simp+

lemma ex_urljoin_p:
  "py_urljoin ''http://example.com/p'' ''/ok'' = ''http://example.com/ok''"
  "py_urljoin ''http://example.com/p'' ''/missing'' = ''http://example.com/missing''"
  "py_urljoin ''http://example.com/p'' ''http://down.example/x'' = ''http://down.example/x''"
  by code_simp+

lemma ex_unescape:
  "unescape_x2B ''http://foo.com/a&#x2B;b'' = ''http://foo.com/a+b''"
  "unescape_x2B ''http://foo.com/a+b'' = ''http://foo.com/a+b''"
  "unescape_x2B ''/ok'' = ''/ok''"
  "unescape_x2B ''/missing'' = ''/missing''"
  "unescape_x2B ''http://down.example/x'' = ''http://down.example/x''"
  by code_simp+

lemma ex_soup:
  "example_soup doc_root =
     \<lparr>find_all = [\<lparr>tag_name = ''title'', tag_attrs = []\<rparr>, anchor ''/a'',
                  anchor ''file://example.com/srv/f.html'', anchor ''http://other.org/x''],
      title_string = Some '' Root '', get_text = ''Root A F O''\<rparr>"
  "example_soup doc_a =
     \<lparr>find_all = [anchor ''http://example.com/''], title_string = None, get_text = ''up''\<rparr>"
  "example_soup doc_f =
     \<lparr>find_all = [anchor ''file://localhost/srv/g.html''], title_string = None,
      get_text = ''G''\<rparr>"
  "example_soup doc_g =
     \<lparr>find_all = [\<lparr>tag_name = ''p'', tag_attrs = []\<rparr>], title_string = None,
      get_text = ''leaf''\<rparr>"
  "example_soup doc_p =
     \<lparr>find_all = [anchor ''/ok'', anchor ''/missing'', anchor ''http://down.example/x''],
      title_string = None, get_text = ''1 2 3''\<rparr>"
  "example_soup doc_entity =
     \<lparr>find_all = [anchor ''http://foo.com/a+b''], title_string = None, get_text = ''x''\<rparr>"
  "example_soup doc_meta =
     \<lparr>find_all = [\<lparr>tag_name = ''meta'',
                    tag_attrs = [(''http-equiv'', ''refresh''),
                                 (''content'', ''0;url=/next.html'')]\<rparr>],
      title_string = None, get_text = []\<rparr>"
  by (simp_all add: example_soup_def doc_root_def doc_a_def doc_f_def doc_g_def doc_p_def
                    doc_entity_def doc_meta_def)

lemma ex_findall_http:
  "findall_http doc_root = [''http://other.org/x'']"
  "findall_http doc_a = [''http://example.com/'']"
  "findall_http doc_f = []"
  "findall_http doc_g = []"
  "findall_http doc_p = [''http://down.example/x'']"
  "findall_http doc_entity = [''http://foo.com/a&#x2B;b'']"
  "findall_http doc_meta = []"
  by code_simp+

lemma ex_findall_css_url:
  "findall_css_url doc_root = []"
  "findall_css_url doc_a = []"
  "findall_css_url doc_f = []"
  "findall_css_url doc_g = []"
  "findall_css_url doc_entity = []"
  "findall_css_url doc_meta = []"
  by code_simp+

lemma ex_meta:
  "search_url_param ''0;url=/next.html'' = Some ''/next.html''"
  "strip_quotes (strip ''/next.html'') = ''/next.html''"
  "lower ''refresh'' = ''refresh''"
  "strip '' Root '' = ''Root''"
  by code_simp+

lemmas ex_scan_defs =
  attribute_scan_def meta_refresh_scan_def meta_refresh_tags_def inline_css_scan_def
  raw_text_scan_def url_attrs_WBSLSC_def url_attrs_brokenScraper_def anchor_def
  resolved_Cons resolved_Nil in_scope_WBSLSC_def is_valid_def startswith_def

lemma ex_links_WBSLSC:
  "get_all_links_WBSLSC example_library doc_root ''http://example.com/'' =
     {''file://example.com/srv/f.html'', ''http://example.com/a''}"
  "get_all_links_WBSLSC example_library doc_a ''http://example.com/a'' =
     {''http://example.com/''}"
  "get_all_links_WBSLSC example_library doc_f ''file://example.com/srv/f.html'' =
     {''file://localhost/srv/g.html''}"
  "get_all_links_WBSLSC example_library doc_g ''file://localhost/srv/g.html'' = {}"
  "get_all_links_WBSLSC example_library doc_entity ''http://foo.com/'' =
     {''http://foo.com/a+b'', ''http://foo.com/a&#x2B;b''}"
  "get_all_links_WBSLSC example_library doc_meta ''http://example.com/'' =
     {''http://example.com/next.html''}"
  by (simp_all add: get_all_links_WBSLSC_union ex_lib ex_soup ex_findall_http
        ex_findall_css_url ex_meta ex_scan_defs ex_urljoin ex_urljoin_foo ex_urlparse
        ex_urlparse_foo insert_commute)

lemma ex_links_brokenScraper:
  "get_all_links_brokenScraper example_library doc_p ''http://example.com/p'' =
     {''http://down.example/x'', ''http://example.com/missing'', ''http://example.com/ok''}"
  "get_all_links_brokenScraper example_library doc_entity ''http://foo.com/'' =
     {''http://foo.com/a+b''}"
  "get_all_links_brokenScraper example_library doc_meta ''http://example.com/'' = {}"
  by (simp_all add: get_all_links_brokenScraper_union ex_lib ex_soup ex_findall_http
        ex_unescape ex_scan_defs ex_urljoin_p ex_urljoin_foo ex_urlparse_p ex_urlparse_foo
        insert_commute)

subsection \<open>The pages and the traversals of the site\<close>

text \<open>
  The site has a cycle (the root links to \<open>/a\<close>, which links back to the root) and a
  local file, named with the site's host, that links to a file of another host.
\<close>

lemma ex_get:
  "requests_get example_world ''http://example.com/'' = Returned (200, doc_root)"
  "requests_get example_world ''http://example.com/a'' = Returned (200, doc_a)"
  "requests_get example_world ''http://example.com/p'' = Returned (200, doc_p)"
  "requests_get example_world ''http://example.com/gone'' = Returned (404, [])"
  by (simp_all add: example_world_def)

lemma ex_files:
  "path_exists example_world ''/srv/f.html''"
  "path_exists example_world ''/srv/g.html''"
  "read_file example_world ''/srv/f.html'' = Returned doc_f"
  "read_file example_world ''/srv/g.html'' = Returned doc_g"
  by (simp_all add: example_world_def)

lemmas ex_page_defs =
  Let_def startswith_def page_title_def page_images_def anchor_def

lemma ex_scrape_WBSLSC:
  "scrape_page_WBSLSC example_library example_world ''http://example.com/'' =
     Some \<lparr>pd_url = ''http://example.com/'', pd_title = ''Root'',
            pd_text = ''Root A F O'', pd_images = [],
            pd_links = {''file://example.com/srv/f.html'', ''http://example.com/a''}\<rparr>"
  "scrape_page_WBSLSC example_library example_world ''http://example.com/a'' =
     Some \<lparr>pd_url = ''http://example.com/a'', pd_title = [], pd_text = ''up'',
            pd_images = [], pd_links = {''http://example.com/''}\<rparr>"
  "scrape_page_WBSLSC example_library example_world ''file://example.com/srv/f.html'' =
     Some \<lparr>pd_url = ''file://example.com/srv/f.html'', pd_title = [], pd_text = ''G'',
            pd_images = [], pd_links = {''file://localhost/srv/g.html''}\<rparr>"
  "scrape_page_WBSLSC example_library example_world ''file://localhost/srv/g.html'' =
     Some \<lparr>pd_url = ''file://localhost/srv/g.html'', pd_title = [], pd_text = ''leaf'',
            pd_images = [], pd_links = {}\<rparr>"
  by (simp_all add: scrape_page_WBSLSC_def ex_page_defs ex_lib ex_get ex_files ex_urlparse
                    ex_soup ex_links_WBSLSC ex_meta)

lemma ex_scrape_brokenScraper:
  "scrape_page_brokenScraper example_library example_world ''http://example.com/p'' =
     Some \<lparr>pd_url = ''http://example.com/p'', pd_title = [], pd_text = ''1 2 3'',
            pd_images = [],
            pd_links = {''http://down.example/x'', ''http://example.com/missing'',
                        ''http://example.com/ok''}\<rparr>"
  "scrape_page_brokenScraper example_library example_world ''http://example.com/gone'' = None"
  by (simp_all add: scrape_page_brokenScraper_def ex_page_defs ex_lib ex_get ex_soup
                    ex_links_brokenScraper)

lemma ex_iter:
  "set_iter example_library {''file://example.com/srv/f.html'', ''http://example.com/a''}
     = [''file://example.com/srv/f.html'', ''http://example.com/a'']"
  "set_iter example_library {''http://example.com/''} = [''http://example.com/'']"
  "set_iter example_library {''file://localhost/srv/g.html''} = [''file://localhost/srv/g.html'']"
  "set_iter example_library {} = []"
  "set_iter example_library {''http://down.example/x'', ''http://example.com/missing'',
                             ''http://example.com/ok''}
     = [''http://down.example/x'', ''http://example.com/missing'', ''http://example.com/ok'']"
  by code_simp+

lemma ex_sorted:
  "sorted_list_of_set {''file://example.com/srv/f.html'', ''http://example.com/a''}
     = [''file://example.com/srv/f.html'', ''http://example.com/a'']"
  "sorted_list_of_set {''http://example.com/''} = [''http://example.com/'']"
  "sorted_list_of_set {''file://localhost/srv/g.html''} = [''file://localhost/srv/g.html'']"
  by code_simp+

lemma ex_completed:
  "as_completed example_world
     [''http://down.example/x'', ''http://example.com/missing'', ''http://example.com/ok'']
     = [''http://down.example/x'', ''http://example.com/missing'', ''http://example.com/ok'']"
  by (simp add: as_completed_def example_world_def)

lemma ex_follows:
  "follows example_library ''http://example.com/'' ''example.com''
     ''file://example.com/srv/f.html''"
  "follows example_library ''http://example.com/'' ''example.com'' ''http://example.com/a''"
  "follows example_library ''http://example.com/a'' ''example.com'' ''http://example.com/''"
  "follows example_library ''file://example.com/srv/f.html'' bd ''file://localhost/srv/g.html''"
  by (simp_all add: follows_def startswith_def ex_lib ex_urlparse)

lemma ex_build_root:
  "build_tree example_library example_world ''http://example.com/'' ''example.com'' 2
     \<lparr>visited = {}, scraped = []\<rparr> =
   (Some (Node ''http://example.com/'' ''Root''
            [''file://example.com/srv/f.html'', ''http://example.com/a'']
            [Node ''file://example.com/srv/f.html'' [] [''file://localhost/srv/g.html'']
               [Node ''file://localhost/srv/g.html'' [] [] []],
             Node ''http://example.com/a'' [] [''http://example.com/''] []]),
    \<lparr>visited = {''http://example.com/a'', ''file://localhost/srv/g.html'',
                 ''file://example.com/srv/f.html'', ''http://example.com/''},
     scraped = [''http://example.com/'', ''file://example.com/srv/f.html'',
                ''file://localhost/srv/g.html'', ''http://example.com/a'']\<rparr>)"
  by (simp add: build_tree.simps ex_scrape_WBSLSC ex_iter ex_sorted ex_follows)

lemma ex_inputs:
  "strip ''http://example.com/'' = ''http://example.com/''"
  "strip ''file://example.com/srv/f.html'' = ''file://example.com/srv/f.html''"
  "strip ''2'' = ''2''"
  "strip ''-3'' = ''-3''"
  "strip [] = []"
  "py_int ''2'' = Some 2"
  "py_int ''-3'' = Some (- 3)"
  "unescape_x2B ''/next.html'' = ''/next.html''"
  by code_simp+

lemma ex_build_leaf:
  "build_tree example_library example_world ''http://example.com/'' ''example.com'' max_depth
     \<lparr>visited = {}, scraped = []\<rparr> =
   (if max_depth \<le> 0
    then (Some (Node ''http://example.com/'' ''Root''
                  [''file://example.com/srv/f.html'', ''http://example.com/a''] []),
          \<lparr>visited = {''http://example.com/''}, scraped = [''http://example.com/'']\<rparr>)
    else build_tree example_library example_world ''http://example.com/'' ''example.com''
           max_depth \<lparr>visited = {}, scraped = []\<rparr>)"
  by (simp add: build_tree_leaf ex_scrape_WBSLSC ex_sorted)

lemma ex_build_f:
  "build_tree example_library example_world ''file://example.com/srv/f.html''
     ''file://example.com/srv/f.html'' 1 \<lparr>visited = {}, scraped = []\<rparr> =
   (Some (Node ''file://example.com/srv/f.html'' [] [''file://localhost/srv/g.html'']
            [Node ''file://localhost/srv/g.html'' [] [] []]),
    \<lparr>visited = {''file://localhost/srv/g.html'', ''file://example.com/srv/f.html''},
     scraped = [''file://example.com/srv/f.html'', ''file://localhost/srv/g.html'']\<rparr>)"
  by (simp add: build_tree.simps ex_scrape_WBSLSC ex_iter ex_sorted ex_follows)

lemma ex_main:
  "main_WBSLSC example_library example_world ''http://example.com/'' ''2'' =
     build_tree example_library example_world ''http://example.com/'' ''example.com'' 2
       \<lparr>visited = {}, scraped = []\<rparr>"
  "main_WBSLSC example_library example_world ''http://example.com/'' ''-3'' =
     build_tree example_library example_world ''http://example.com/'' ''example.com'' (- 3)
       \<lparr>visited = {}, scraped = []\<rparr>"
  "main_WBSLSC example_library example_world ''file://example.com/srv/f.html'' [] =
     build_tree example_library example_world ''file://example.com/srv/f.html''
       ''file://example.com/srv/f.html'' 1 \<lparr>visited = {}, scraped = []\<rparr>"
  by (simp_all add: main_WBSLSC_def read_max_depth_def Let_def ex_lib ex_urlparse ex_inputs)

subsection \<open>The link checker on the site\<close>

text \<open>
  The three cases of C8 on the site: a link whose check returns 404, a link whose check
  returns 200, and a link whose check raises.
\<close>

theorem check_link_result_witness:
  "check_link ERROR_CODES example_world ''http://example.com/missing''
     = (Some 404, ''Status 404'')
   \<and> check_link ERROR_CODES example_world ''http://example.com/ok'' = (Some 200, [])
   \<and> check_link ERROR_CODES example_world ''http://down.example/x''
     = (None, ''Connection refused'')"
  using check_link_result [of example_world "''http://example.com/missing''" 404 ERROR_CODES]
        check_link_result [of example_world "''http://example.com/ok''" 200 ERROR_CODES]
        check_link_result [of example_world "''http://down.example/x''" 0 ERROR_CODES
                              "''Connection refused''"]
  by (simp add: ex_head ex_str_int ERROR_CODES_def)

subsection \<open>The URL classifier on a local-file URL\<close>

text \<open>
  C1 as stated fails: \<open>file:///tmp/a.html\<close> has the scheme \<open>file\<close> and an empty host,
  and \<open>is_valid\<close> is false for it.
\<close>

theorem file_url_is_not_valid:
  "startswith ''file:///tmp/a.html'' ''file://''
   \<and> scheme (urlparse example_library ''file:///tmp/a.html'') = ''file''
   \<and> netloc (urlparse example_library ''file:///tmp/a.html'') = []
   \<and> \<not> is_valid example_library ''file:///tmp/a.html''"
  by (simp add: is_valid_def startswith_def ex_lib ex_urlparse)

text \<open>
  The amended C1 on a network URL and on the same local-file URL, which the crawler's
  extractor adds all the same.
\<close>

theorem is_valid_scheme_and_netloc_witness:
  "is_valid example_library ''http://example.com/a''
   \<and> \<not> is_valid example_library ''file:///tmp/a.html''
   \<and> add_link_WBSLSC example_library ''http://example.com/'' ''file:///tmp/a.html'' {}
       = {''file:///tmp/a.html''}"
  using is_valid_scheme_and_netloc [of example_library "''http://example.com/a''"]
        is_valid_scheme_and_netloc [of example_library "''file:///tmp/a.html''"
                                       "''http://example.com/''" "{}"]
  by (simp add: startswith_def ex_lib ex_urlparse)

subsection \<open>The extractors on an escaped link\<close>

text \<open>
  C2 as stated fails for the crawler: the raw-text pattern finds the link of
  \<open>doc_entity\<close> in its escaped form, and the crawler's extractor returns it so.
\<close>

theorem crawler_keeps_escaped_form:
  "raw_text_scan doc_entity = [''http://foo.com/a&#x2B;b'']
   \<and> ''http://foo.com/a&#x2B;b''
       \<in> get_all_links_WBSLSC example_library doc_entity ''http://foo.com/''"
  by (simp add: raw_text_scan_def ex_findall_http ex_links_WBSLSC)

text \<open>
  The amended C2 on the same document: the scanner's extractor returns the unescaped
  form and not the escaped one.
\<close>

theorem unescape_before_resolution_witness:
  "''http://foo.com/a+b''
     \<in> get_all_links_brokenScraper example_library doc_entity ''http://foo.com/''
   \<and> ''http://foo.com/a&#x2B;b''
     \<notin> get_all_links_brokenScraper example_library doc_entity ''http://foo.com/''"
  using unescape_before_resolution [of "''http://foo.com/a+b''" example_library doc_entity
                                       "''http://foo.com/''"]
        unescape_before_resolution [of "''http://foo.com/a&#x2B;b''" example_library
                                       doc_entity "''http://foo.com/''"]
  by (simp add: ex_lib ex_soup ex_findall_http ex_unescape ex_scan_defs ex_urljoin_foo
                ex_urlparse_foo)

subsection \<open>The extractors on a meta refresh\<close>

text \<open>
  C7 as stated fails for the scanner: the meta-refresh strategy finds \<open>/next.html\<close> in
  \<open>doc_meta\<close>, which resolves to a valid URL, and the scanner's extractor returns
  nothing for the document.
\<close>

theorem scanner_skips_meta_refresh:
  "meta_refresh_scan (BeautifulSoup example_library doc_meta) = [''/next.html'']
   \<and> urljoin example_library ''http://example.com/''
         (unescape example_library ''/next.html'') = ''http://example.com/next.html''
   \<and> is_valid example_library ''http://example.com/next.html''
   \<and> get_all_links_brokenScraper example_library doc_meta ''http://example.com/'' = {}"
  by (simp add: ex_lib ex_soup ex_meta ex_scan_defs ex_inputs ex_urljoin ex_urlparse_foo
                ex_links_brokenScraper)

text \<open>
  The amended C7 on the same document: the crawler's extractor returns the link, the
  scanner's does not.
\<close>

theorem extractor_strategies_witness:
  "get_all_links_WBSLSC example_library doc_meta ''http://example.com/''
     = {''http://example.com/next.html''}
   \<and> get_all_links_brokenScraper example_library doc_meta ''http://example.com/'' = {}"
  using extractor_strategies [of example_library doc_meta "''http://example.com/''"]
  by (simp add: ex_lib ex_soup ex_findall_http ex_findall_css_url ex_meta ex_scan_defs
                ex_urljoin ex_urlparse ex_urlparse_foo)

subsection \<open>The tree builder on the site\<close>

text \<open>
  C3 on the cycle: the traversal from the root with depth 2 fetches four URLs, each
  once (the link from \<open>/a\<close> back to the root is not followed again), and a second call
  for the root returns no node and changes nothing.
\<close>

theorem each_url_fetched_once_witness:
  "scraped (snd (build_tree example_library example_world ''http://example.com/''
                   ''example.com'' 2 \<lparr>visited = {}, scraped = []\<rparr>))
     = [''http://example.com/'', ''file://example.com/srv/f.html'',
        ''file://localhost/srv/g.html'', ''http://example.com/a'']
   \<and> distinct (scraped (snd (build_tree example_library example_world ''http://example.com/''
                   ''example.com'' 2 \<lparr>visited = {}, scraped = []\<rparr>)))
   \<and> build_tree example_library example_world ''http://example.com/'' ''example.com'' 1
         (snd (build_tree example_library example_world ''http://example.com/''
                 ''example.com'' 2 \<lparr>visited = {}, scraped = []\<rparr>))
       = (None, snd (build_tree example_library example_world ''http://example.com/''
                       ''example.com'' 2 \<lparr>visited = {}, scraped = []\<rparr>))"
  using each_url_fetched_once [of "''http://example.com/''" "\<lparr>visited = {}, scraped = []\<rparr>"
                                  example_library example_world "''example.com''" 2]
        each_url_fetched_once [of "''http://example.com/''"
          "snd (build_tree example_library example_world ''http://example.com/''
                  ''example.com'' 2 \<lparr>visited = {}, scraped = []\<rparr>)"
          example_library example_world "''example.com''" 1]
  by (simp add: ex_build_root)

text \<open>
  C4 as stated fails: the root is a network URL with the host \<open>example.com\<close>, and the
  tree the driver builds with depth 2 has the node \<open>file://localhost/srv/g.html\<close>, whose
  host is \<open>localhost\<close>. It is reached through the local-file link
  \<open>file://example.com/srv/f.html\<close>, which has the root's host.
\<close>

theorem network_root_reaches_other_host:
  "\<not> startswith ''http://example.com/'' ''file://''
   \<and> netloc (urlparse example_library ''http://example.com/'') = ''example.com''
   \<and> fst (main_WBSLSC example_library example_world ''http://example.com/'' ''2'') =
       Some (Node ''http://example.com/'' ''Root''
               [''file://example.com/srv/f.html'', ''http://example.com/a'']
               [Node ''file://example.com/srv/f.html'' [] [''file://localhost/srv/g.html'']
                  [Node ''file://localhost/srv/g.html'' [] [] []],
                Node ''http://example.com/a'' [] [''http://example.com/''] []])
   \<and> netloc (urlparse example_library ''file://localhost/srv/g.html'') = ''localhost''"
  by (simp add: startswith_def ex_lib ex_urlparse ex_main ex_build_root)

text \<open>
  The amended C4 on a traversal that the driver roots at a local file: both nodes of
  the tree are local files.
\<close>

theorem scope_rule_witness:
  "map node_url
     (nodes (the (fst (main_WBSLSC example_library example_world
                         ''file://example.com/srv/f.html'' []))))
     = [''file://example.com/srv/f.html'', ''file://localhost/srv/g.html'']
   \<and> startswith ''file://example.com/srv/f.html'' ''file://''
   \<and> startswith ''file://localhost/srv/g.html'' ''file://''"
  using scope_rule [OF ex_build_f]
  by (simp add: ex_main ex_build_f startswith_def)

text \<open>
  C5 on the root page, which has two links in scope: with depth 0 the tree is the root
  alone.
\<close>

theorem depth_zero_single_node_witness:
  "build_tree example_library example_world ''http://example.com/'' ''example.com'' 0
     \<lparr>visited = {}, scraped = []\<rparr> =
   (Some (Node ''http://example.com/'' ''Root''
            [''file://example.com/srv/f.html'', ''http://example.com/a''] []),
    \<lparr>visited = {''http://example.com/''}, scraped = [''http://example.com/'']\<rparr>)"
  using depth_zero_single_node [OF _ ex_scrape_WBSLSC(1),
          of "\<lparr>visited = {}, scraped = []\<rparr>" "''example.com''"]
  by (simp add: ex_sorted)

text \<open>
  C10 on the input \<open>-3\<close>: the driver reads the depth -3 and builds the root alone.
\<close>

theorem nonpositive_depth_no_recursion_witness:
  "read_max_depth example_library ''-3'' = - 3
   \<and> main_WBSLSC example_library example_world ''http://example.com/'' ''-3'' =
       (Some (Node ''http://example.com/'' ''Root''
                [''file://example.com/srv/f.html'', ''http://example.com/a''] []),
        \<lparr>visited = {''http://example.com/''}, scraped = [''http://example.com/'']\<rparr>)"
  using nonpositive_depth_no_recursion [of "- 3" "''http://example.com/''"
          "\<lparr>visited = {}, scraped = []\<rparr>" example_library example_world _
          "''example.com''" "''-3''" "- 3"]
        ex_scrape_WBSLSC(1)
  by (simp add: ex_main ex_lib ex_inputs ex_build_leaf [of 0])

subsection \<open>The scanner on the site\<close>

text \<open>
  C6 on the page \<open>/p\<close>, whose own check returns 404 and whose three links check as 200,
  404 and a refused connection: all four URLs are checked, and the records are the
  page and the link that returned 404.
\<close>

theorem scanner_records_broken_only_witness:
  "snd (process_input_url ERROR_CODES example_library example_world ''http://example.com/p'')
     = [''http://example.com/p'', ''http://down.example/x'', ''http://example.com/missing'',
        ''http://example.com/ok'']
   \<and> map broken_link
         (fst (process_input_url ERROR_CODES example_library example_world
                 ''http://example.com/p''))
     = [''http://example.com/p'', ''http://example.com/missing'']"
  using scanner_records_broken_only [OF ex_scrape_brokenScraper(1), of ERROR_CODES]
  by (simp add: process_input_url_def Let_def ex_scrape_brokenScraper ex_iter ex_completed
                is_broken_def ex_head ERROR_CODES_def)

text \<open>
  C9 on a seed whose \<open>GET\<close> request returns 404: no record and no check, although a
  \<open>HEAD\<close> request for the seed would return 404 as well.
\<close>

theorem failed_scrape_no_check_witness:
  "\<not> startswith ''http://example.com/gone'' ''file://''
   \<and> requests_get example_world ''http://example.com/gone'' = Returned (404, [])
   \<and> requests_head example_world ''http://example.com/gone'' = Returned 404
   \<and> process_input_url ERROR_CODES example_library example_world ''http://example.com/gone''
       = ([], [])"
  using failed_scrape_no_check [of "''http://example.com/gone''" example_world
                                   example_library 404 "[]" _ ERROR_CODES]
  by (simp add: startswith_def ex_get ex_head)

end
